theory Spec2Isabelle
  imports Main "HOL-Library.Word" "HOL-Library.Sublist"
begin

section \<open>JavaScript values of a request body\<close>

text \<open>
  A parsed JSON body is a JavaScript value. Numbers are modelled as exact integers
  (fractions and the rounding of doubles are outside the model); a property that is
  absent reads as \<open>JUndefined\<close>. Strings are \<open>string\<close>s holding the text in
  UTF-8, so every ASCII character of a pattern is one \<open>char\<close>.
\<close>

type_synonym byte = "8 word"

datatype jsval =
    JUndefined
  | JNull
  | JBool bool
  | JNum int
  | JStr string
  | JArr "jsval list"
  | JObj "(string \<times> jsval) list"

text \<open>ToBoolean: \<open>!v\<close> is \<open>\<not> truthy v\<close>.\<close>

fun truthy :: "jsval \<Rightarrow> bool" where
  "truthy JUndefined = False"
| "truthy JNull = False"
| "truthy (JBool b) = b"
| "truthy (JNum n) = (n \<noteq> 0)"
| "truthy (JStr s) = (s \<noteq> [])"
| "truthy (JArr xs) = True"
| "truthy (JObj kvs) = True"

fun typeof :: "jsval \<Rightarrow> string" where
  "typeof JUndefined = ''undefined''"
| "typeof JNull = ''object''"
| "typeof (JBool b) = ''boolean''"
| "typeof (JNum n) = ''number''"
| "typeof (JStr s) = ''string''"
| "typeof (JArr xs) = ''object''"
| "typeof (JObj kvs) = ''object''"

text \<open>A thrown JavaScript error: its \<open>message\<close>, \<open>stack\<close> and optional \<open>status\<close>.\<close>

record js_error =
  message :: string
  stack :: string
  err_status :: "nat option"

text \<open>
  Destructuring \<open>const { html, width = 1200 } = req.body\<close>: reading a property of
  \<open>undefined\<close> or \<open>null\<close> throws a TypeError; a default applies exactly when the
  property reads as \<open>undefined\<close>.
\<close>

definition type_error :: js_error where
  "type_error = \<lparr>message = ''Cannot destructure property of req.body'',
     stack = ''TypeError'', err_status = None\<rparr>"

fun get_prop :: "jsval \<Rightarrow> string \<Rightarrow> js_error + jsval" where
  "get_prop JUndefined k = Inl type_error"
| "get_prop JNull k = Inl type_error"
| "get_prop (JObj kvs) k = Inr (case map_of kvs k of None \<Rightarrow> JUndefined | Some v \<Rightarrow> v)"
| "get_prop v k = Inr JUndefined"

definition with_default :: "jsval \<Rightarrow> jsval \<Rightarrow> jsval" where
  "with_default v d = (if v = JUndefined then d else v)"

subsection \<open>Decimal text of numbers, \<open>toString\<close> and \<open>parseInt\<close>\<close>

definition digit_char :: "nat \<Rightarrow> char" where
  "digit_char d = char_of (48 + d)"

fun dec :: "nat \<Rightarrow> string" where
  "dec n = (if n < 10 then [digit_char n] else dec (n div 10) @ [digit_char (n mod 10)])"

declare dec.simps [simp del]

definition strip_trailing_zeros :: "string \<Rightarrow> string" where
  "strip_trailing_zeros s = rev (dropWhile (\<lambda>c. c = CHR ''0'') (rev s))"

text \<open>
  Number::toString: plain digits below \<open>10^21\<close>, exponent notation from there on
  (\<open>1e+21\<close>, \<open>1.5e+21\<close>).
\<close>

definition num_to_string :: "int \<Rightarrow> string" where
  "num_to_string n =
     (let sign = (if n < 0 then ''-'' else []); ds = dec (nat \<bar>n\<bar>) in
      if \<bar>n\<bar> < 10 ^ 21 then sign @ ds
      else (let frac = strip_trailing_zeros (tl ds) in
            sign @ [hd ds] @ (if frac = [] then [] else ''.'' @ frac)
              @ ''e+'' @ dec (length ds - 1)))"

fun join_comma :: "string list \<Rightarrow> string" where
  "join_comma [] = []"
| "join_comma [s] = s"
| "join_comma (s # ss) = s @ '','' @ join_comma ss"

fun to_string :: "jsval \<Rightarrow> string" where
  "to_string JUndefined = ''undefined''"
| "to_string JNull = ''null''"
| "to_string (JBool b) = (if b then ''true'' else ''false'')"
| "to_string (JNum n) = num_to_string n"
| "to_string (JStr s) = s"
| "to_string (JArr xs) =
     join_comma (map (\<lambda>x. if x = JUndefined \<or> x = JNull then [] else to_string x) xs)"
| "to_string (JObj kvs) = ''[object Object]''"

text \<open>
  The white space and line terminators that \<open>parseInt\<close> skips, in UTF-8: TAB, LF, VT,
  FF, CR, SP, U+00A0, U+1680, U+2000..U+200A, U+2028, U+2029, U+202F, U+205F, U+3000,
  U+FEFF.
\<close>

definition ws_encodings :: "string list" where
  "ws_encodings =
     [[CHR 0x09], [CHR 0x0A], [CHR 0x0B], [CHR 0x0C], [CHR 0x0D], [CHR 0x20],
      [CHR 0xC2, CHR 0xA0], [CHR 0xE1, CHR 0x9A, CHR 0x80],
      [CHR 0xE2, CHR 0x80, CHR 0x80], [CHR 0xE2, CHR 0x80, CHR 0x81],
      [CHR 0xE2, CHR 0x80, CHR 0x82], [CHR 0xE2, CHR 0x80, CHR 0x83],
      [CHR 0xE2, CHR 0x80, CHR 0x84], [CHR 0xE2, CHR 0x80, CHR 0x85],
      [CHR 0xE2, CHR 0x80, CHR 0x86], [CHR 0xE2, CHR 0x80, CHR 0x87],
      [CHR 0xE2, CHR 0x80, CHR 0x88], [CHR 0xE2, CHR 0x80, CHR 0x89],
      [CHR 0xE2, CHR 0x80, CHR 0x8A], [CHR 0xE2, CHR 0x80, CHR 0xA8],
      [CHR 0xE2, CHR 0x80, CHR 0xA9], [CHR 0xE2, CHR 0x80, CHR 0xAF],
      [CHR 0xE2, CHR 0x81, CHR 0x9F], [CHR 0xE3, CHR 0x80, CHR 0x80],
      [CHR 0xEF, CHR 0xBB, CHR 0xBF]]"

definition ws_len :: "string \<Rightarrow> nat" where
  "ws_len s = (case find (\<lambda>w. prefix w s) ws_encodings of None \<Rightarrow> 0 | Some w \<Rightarrow> length w)"

lemma ws_len_le: "ws_len s \<le> length s"
  by (auto simp: ws_len_def prefix_length_le split: option.splits dest!: find_Some_iff [THEN iffD1])

function trim_start :: "string \<Rightarrow> string" where
  "trim_start s = (if ws_len s = 0 then s else trim_start (drop (ws_len s) s))"
  by pat_completeness auto
termination
proof (relation "measure length")
  show "wf (measure length)" by simp
next
  fix s :: string
  assume "ws_len s \<noteq> 0"
  with ws_len_le [of s] show "(drop (ws_len s) s, s) \<in> measure length"
    by (cases s) auto
qed

declare trim_start.simps [simp del]

definition digit_val :: "nat \<Rightarrow> char \<Rightarrow> nat option" where
  "digit_val radix c =
     (let n = (of_char c :: nat);
          v = (if 48 \<le> n \<and> n \<le> 57 then Some (n - 48)
               else if 97 \<le> n \<and> n \<le> 122 then Some (n - 87)
               else if 65 \<le> n \<and> n \<le> 90 then Some (n - 55)
               else None)
      in case v of None \<Rightarrow> None | Some d \<Rightarrow> if d < radix then Some d else None)"

definition digits_value :: "nat \<Rightarrow> string \<Rightarrow> nat" where
  "digits_value radix ds = foldl (\<lambda>acc c. acc * radix + the (digit_val radix c)) 0 ds"

text \<open>\<open>parseInt(v)\<close> with no radix; \<open>None\<close> is \<open>NaN\<close>.\<close>

definition parse_int :: "jsval \<Rightarrow> int option" where
  "parse_int v =
     (let s0 = trim_start (to_string v);
          neg = (s0 \<noteq> [] \<and> hd s0 = CHR ''-'');
          s1 = (if s0 \<noteq> [] \<and> (hd s0 = CHR ''+'' \<or> hd s0 = CHR ''-'') then tl s0 else s0);
          hex = (prefix ''0x'' s1 \<or> prefix ''0X'' s1);
          radix = (if hex then 16 else 10);
          s2 = (if hex then drop 2 s1 else s1);
          z = takeWhile (\<lambda>c. digit_val radix c \<noteq> None) s2
      in if z = [] then None
         else Some ((if neg then - 1 else 1) * int (digits_value radix z)))"

section \<open>Regular expressions of the source, as backtracking matchers\<close>

text \<open>
  Each regular expression of the source is written with the combinators below, piece by
  piece. A matcher takes the continuation \<open>k\<close> for what follows it and the remaining
  input; a greedy quantifier tries the longest repetition first and falls back, a lazy
  one tries the continuation first, as the backtracking semantics of JavaScript does.
  Under the \<open>i\<close> flag (without \<open>u\<close>) an ASCII letter of a pattern matches its two
  cases only.
\<close>

definition ascii_upper :: "char \<Rightarrow> char" where
  "ascii_upper c = (let n = (of_char c :: nat) in
     if 97 \<le> n \<and> n \<le> 122 then char_of (n - 32) else c)"

definition ci_eq :: "char \<Rightarrow> char \<Rightarrow> bool" where
  "ci_eq p c = (ascii_upper p = ascii_upper c)"

definition is_word :: "char \<Rightarrow> bool" where
  "is_word c = (let n = (of_char c :: nat) in
     (48 \<le> n \<and> n \<le> 57) \<or> (65 \<le> n \<and> n \<le> 90) \<or> (97 \<le> n \<and> n \<le> 122) \<or> n = 95)"

fun lit :: "string \<Rightarrow> (string \<Rightarrow> 'a option) \<Rightarrow> string \<Rightarrow> 'a option" where
  "lit [] k s = k s"
| "lit (p # ps) k [] = None"
| "lit (p # ps) k (c # cs) = (if p = c then lit ps k cs else None)"

fun lit_ci :: "string \<Rightarrow> (string \<Rightarrow> 'a option) \<Rightarrow> string \<Rightarrow> 'a option" where
  "lit_ci [] k s = k s"
| "lit_ci (p # ps) k [] = None"
| "lit_ci (p # ps) k (c # cs) = (if ci_eq p c then lit_ci ps k cs else None)"

fun cls :: "(char \<Rightarrow> bool) \<Rightarrow> (string \<Rightarrow> 'a option) \<Rightarrow> string \<Rightarrow> 'a option" where
  "cls P k [] = None"
| "cls P k (c # cs) = (if P c then k cs else None)"

text \<open>\<open>[...]*\<close>, greedy.\<close>

fun star :: "(char \<Rightarrow> bool) \<Rightarrow> (string \<Rightarrow> 'a option) \<Rightarrow> string \<Rightarrow> 'a option" where
  "star P k [] = k []"
| "star P k (c # cs) =
     (if P c then (case star P k cs of Some r \<Rightarrow> Some r | None \<Rightarrow> k (c # cs))
      else k (c # cs))"

text \<open>\<open>[...]+\<close>, greedy.\<close>

definition plus_cls :: "(char \<Rightarrow> bool) \<Rightarrow> (string \<Rightarrow> 'a option) \<Rightarrow> string \<Rightarrow> 'a option" where
  "plus_cls P k s = cls P (star P k) s"

text \<open>
  \<open>\b\<close> right after a word character (the \<open>t\<close> of \<open><script\<close>): the next character
  is not a word character, or the input ends.
\<close>

fun word_end :: "(string \<Rightarrow> 'a option) \<Rightarrow> string \<Rightarrow> 'a option" where
  "word_end k [] = k []"
| "word_end k (c # cs) = (if is_word c then None else k (c # cs))"

text \<open>
  \<open>.\<close> matches anything but a line terminator: LF, CR, U+2028 and U+2029 (the last two
  are three bytes each in UTF-8).
\<close>

definition line_term_at :: "string \<Rightarrow> bool" where
  "line_term_at s =
     (prefix [CHR 0x0A] s \<or> prefix [CHR 0x0D] s \<or>
      prefix [CHR 0xE2, CHR 0x80, CHR 0xA8] s \<or> prefix [CHR 0xE2, CHR 0x80, CHR 0xA9] s)"

text \<open>\<open>.*?\<close>, lazy.\<close>

fun lazy_dots :: "(string \<Rightarrow> 'a option) \<Rightarrow> string \<Rightarrow> 'a option" where
  "lazy_dots k [] = k []"
| "lazy_dots k (c # cs) =
     (case k (c # cs) of Some r \<Rightarrow> Some r
      | None \<Rightarrow> if line_term_at (c # cs) then None else lazy_dots k cs)"

definition is_quote :: "char \<Rightarrow> bool" where
  "is_quote c = (c = CHR 0x22 \<or> c = CHR 0x27)"

definition not_quote :: "char \<Rightarrow> bool" where
  "not_quote c = (\<not> is_quote c)"

definition not_gt :: "char \<Rightarrow> bool" where
  "not_gt c = (c \<noteq> CHR ''>'')"

definition not_lt :: "char \<Rightarrow> bool" where
  "not_lt c = (c \<noteq> CHR ''<'')"

definition not_rparen :: "char \<Rightarrow> bool" where
  "not_rparen c = (c \<noteq> CHR '')'')"

subsection \<open>Searching and replacing\<close>

text \<open>
  A matcher applied to \<open>Some\<close> returns the input left after the match. \<open>test\<close> looks for
  the leftmost match; \<open>first_match\<close> returns what the leftmost match computes.
\<close>

fun first_match :: "(string \<Rightarrow> 'a option) \<Rightarrow> string \<Rightarrow> 'a option" where
  "first_match m [] = m []"
| "first_match m (c # cs) =
     (case m (c # cs) of Some x \<Rightarrow> Some x | None \<Rightarrow> first_match m cs)"

definition test :: "(string \<Rightarrow> 'a option) \<Rightarrow> string \<Rightarrow> bool" where
  "test m s = (first_match m s \<noteq> None)"

text \<open>
  The loop \<open>while ((match = re.exec(s)) !== null)\<close> of a global expression, and
  \<open>s.replace(re, ...)\<close> with the \<open>g\<close> flag: after a match the scan goes on where the
  match ended. No expression of the source matches the empty string; the length test
  is there for the termination proof.
\<close>

function all_matches :: "(string \<Rightarrow> string option) \<Rightarrow> string \<Rightarrow> string list" where
  "all_matches m s =
     (case m s of
        Some rest \<Rightarrow>
          (if length rest < length s
           then take (length s - length rest) s # all_matches m rest else [])
      | None \<Rightarrow> (case s of [] \<Rightarrow> [] | c # cs \<Rightarrow> all_matches m cs))"
  by pat_completeness auto
termination
  by (relation "measure (\<lambda>(m, s). length s)") auto

declare all_matches.simps [simp del]

function replace_all :: "(string \<Rightarrow> string option) \<Rightarrow> (string \<Rightarrow> string) \<Rightarrow> string \<Rightarrow> string" where
  "replace_all m f s =
     (case m s of
        Some rest \<Rightarrow>
          (if length rest < length s
           then f (take (length s - length rest) s) @ replace_all m f rest else s)
      | None \<Rightarrow> (case s of [] \<Rightarrow> [] | c # cs \<Rightarrow> c # replace_all m f cs))"
  by pat_completeness auto
termination
  by (relation "measure (\<lambda>(m, f, s). length s)") auto

declare replace_all.simps [simp del]

text \<open>
  \<open>s.replace(pattern, replacement)\<close> with a string pattern replaces the first
  occurrence; in the replacement \<open>$$\<close>, \<open>$&\<close>, \<open>$`\<close> and \<open>$'\<close> stand for a dollar, the
  matched text, the text before and the text after it (there are no capture groups, so
  \<open>$1\<close> stays as it is).
\<close>

fun find_sub :: "string \<Rightarrow> string \<Rightarrow> (string \<times> string) option" where
  "find_sub pat [] = (if pat = [] then Some ([], []) else None)"
| "find_sub pat (c # cs) =
     (if prefix pat (c # cs) then Some ([], drop (length pat) (c # cs))
      else map_option (\<lambda>(a, b). (c # a, b)) (find_sub pat cs))"

definition includes_str :: "string \<Rightarrow> string \<Rightarrow> bool" where
  "includes_str s pat = (find_sub pat s \<noteq> None)"

fun expand_subst :: "string \<Rightarrow> string \<Rightarrow> string \<Rightarrow> string \<Rightarrow> string" where
  "expand_subst matched pre post [] = []"
| "expand_subst matched pre post [c] = [c]"
| "expand_subst matched pre post (c # d # r) =
     (if c = CHR ''$'' \<and> d = CHR ''$'' then CHR ''$'' # expand_subst matched pre post r
      else if c = CHR ''$'' \<and> d = CHR ''&'' then matched @ expand_subst matched pre post r
      else if c = CHR ''$'' \<and> d = CHR 0x60 then pre @ expand_subst matched pre post r
      else if c = CHR ''$'' \<and> d = CHR 0x27 then post @ expand_subst matched pre post r
      else c # expand_subst matched pre post (d # r))"

definition replace_first :: "string \<Rightarrow> string \<Rightarrow> string \<Rightarrow> string" where
  "replace_first pat repl s =
     (case find_sub pat s of
        None \<Rightarrow> s
      | Some (pre, post) \<Rightarrow> pre @ expand_subst pat pre post repl @ post)"

section \<open>HTML preprocessing\<close>

subsection \<open>\<open>processHtmlForRendering\<close>\<close>

text \<open>
  \<^verbatim>\<open>/<link[^>]+rel=["']preconnect["'][^>]+href=["']URL["'][^>]*>/i\<close>, for the two
  values of URL.
\<close>

definition preconnect_rx :: "string \<Rightarrow> (string \<Rightarrow> 'a option) \<Rightarrow> string \<Rightarrow> 'a option" where
  "preconnect_rx url k =
     lit_ci ''<link'' (plus_cls not_gt (lit_ci ''rel='' (cls is_quote (lit_ci ''preconnect''
       (cls is_quote (plus_cls not_gt (lit_ci ''href='' (cls is_quote (lit_ci url
         (cls is_quote (star not_gt (lit ''>'' k))))))))))))"

definition googleapis_url :: string where
  "googleapis_url = ''https://fonts.googleapis.com''"

definition gstatic_url :: string where
  "gstatic_url = ''https://fonts.gstatic.com''"

definition hasPreconnectGoogapis :: "string \<Rightarrow> bool" where
  "hasPreconnectGoogapis html = test (preconnect_rx googleapis_url Some) html"

definition hasPreconnectGstatic :: "string \<Rightarrow> bool" where
  "hasPreconnectGstatic html = test (preconnect_rx gstatic_url Some) html"

definition googleapis_link :: string where
  "googleapis_link =
     ''<link rel='' @ [CHR 0x22] @ ''preconnect'' @ [CHR 0x22] @ '' href='' @ [CHR 0x22]
       @ ''https://fonts.googleapis.com'' @ [CHR 0x22] @ ''>''"

definition gstatic_link :: string where
  "gstatic_link =
     ''<link rel='' @ [CHR 0x22] @ ''preconnect'' @ [CHR 0x22] @ '' href='' @ [CHR 0x22]
       @ ''https://fonts.gstatic.com'' @ [CHR 0x22] @ '' crossorigin>''"

definition preconnectLinks :: "string \<Rightarrow> string" where
  "preconnectLinks html =
     (if hasPreconnectGoogapis html then [] else googleapis_link)
       @ (if hasPreconnectGstatic html then [] else gstatic_link)"

text \<open>The first half of the function: the injection of the preconnect links.\<close>

definition inject_preconnect :: "string \<Rightarrow> string" where
  "inject_preconnect html =
     (let links = preconnectLinks html in
      if links \<noteq> [] then
        (if includes_str html ''</head>''
         then replace_first ''</head>'' (links @ ''</head>'') html
         else links @ html)
      else html)"

text \<open>
  \<^verbatim>\<open>/<script\b[^<]*(?:(?!<\/script>)<[^<]*)*<\/script>/gi\<close>. The group
  \<^verbatim>\<open>(?:(?!<\/script>)<[^<]*)*\<close> is \<open>script_group\<close>: one more round when the input
  is at a \<open><\<close> that does not open \<open></script>\<close>, the continuation otherwise. Each
  round consumes the \<open><\<close>; the length test is there for the termination proof.
\<close>

function script_group :: "(string \<Rightarrow> 'a option) \<Rightarrow> string \<Rightarrow> 'a option" where
  "script_group k s =
     (case (case s of
              [] \<Rightarrow> None
            | c # cs \<Rightarrow>
                if lit_ci ''</script>'' Some s = None \<and> c = CHR ''<''
                then star not_lt
                       (\<lambda>s'. if length s' < length s then script_group k s' else None) cs
                else None)
      of Some r \<Rightarrow> Some r | None \<Rightarrow> k s)"
  by pat_completeness auto
termination
  by (relation "measure (\<lambda>(k, s). length s)") auto

declare script_group.simps [simp del]

definition script_rx :: "(string \<Rightarrow> 'a option) \<Rightarrow> string \<Rightarrow> 'a option" where
  "script_rx k =
     lit_ci ''<script'' (word_end (star not_lt (script_group (lit_ci ''</script>'' k))))"

text \<open>\<^verbatim>\<open>/<iframe[^>]*>.*?<\/iframe>/gi\<close>\<close>

definition iframe_rx :: "(string \<Rightarrow> 'a option) \<Rightarrow> string \<Rightarrow> 'a option" where
  "iframe_rx k =
     lit_ci ''<iframe'' (star not_gt (lit ''>'' (lazy_dots (lit_ci ''</iframe>'' k))))"

definition strip_scripts :: "string \<Rightarrow> string" where
  "strip_scripts html = replace_all (script_rx Some) (\<lambda>m. []) html"

definition strip_iframes :: "string \<Rightarrow> string" where
  "strip_iframes html = replace_all (iframe_rx Some) (\<lambda>m. []) html"

definition processHtmlForRendering :: "string \<Rightarrow> string" where
  "processHtmlForRendering html = strip_iframes (strip_scripts (inject_preconnect html))"

subsection \<open>\<open>inlineGoogleFonts\<close>\<close>

text \<open>
  \<^verbatim>\<open>/<link[^>]+href=["'](https:\/\/fonts\.googleapis\.com\/[^"']+)["'][^>]*>/gi\<close>
\<close>

definition linkRegex :: "(string \<Rightarrow> 'a option) \<Rightarrow> string \<Rightarrow> 'a option" where
  "linkRegex k =
     lit_ci ''<link'' (plus_cls not_gt (lit_ci ''href='' (cls is_quote
       (lit_ci ''https://fonts.googleapis.com/'' (plus_cls not_quote (cls is_quote
         (star not_gt (lit ''>'' k))))))))"

text \<open>\<^verbatim>\<open>/href=["']([^"']+)["']/i\<close>; the result is capture group 1.\<close>

definition href_rx :: "string \<Rightarrow> string option" where
  "href_rx s =
     lit_ci ''href='' (cls is_quote (\<lambda>s2. plus_cls not_quote
       (\<lambda>s3. cls is_quote (\<lambda>s4. Some (take (length s2 - length s3) s2)) s3) s2)) s"

text \<open>
  \<^verbatim>\<open>css.replace(/url\((\/\/fonts\.gstatic\.com[^\)]+)\)/g, 'url(https:$1)')\<close> and
  \<^verbatim>\<open>css.replace(/url\((https:\/\/fonts\.gstatic\.com[^\)]+)\)/g, 'url($1)')\<close>.
  Capture group 1 is the match without its first four characters and its last one.
\<close>

definition gstatic_rel_rx :: "(string \<Rightarrow> 'a option) \<Rightarrow> string \<Rightarrow> 'a option" where
  "gstatic_rel_rx k = lit ''url('' (lit ''//fonts.gstatic.com'' (plus_cls not_rparen (lit '')'' k)))"

definition gstatic_abs_rx :: "(string \<Rightarrow> 'a option) \<Rightarrow> string \<Rightarrow> 'a option" where
  "gstatic_abs_rx k =
     lit ''url('' (lit ''https://fonts.gstatic.com'' (plus_cls not_rparen (lit '')'' k)))"

definition group1 :: "string \<Rightarrow> string" where
  "group1 m = butlast (drop 4 m)"

definition rewrite_css :: "string \<Rightarrow> string" where
  "rewrite_css css =
     replace_all (gstatic_abs_rx Some) (\<lambda>m. ''url('' @ group1 m @ '')'')
       (replace_all (gstatic_rel_rx Some) (\<lambda>m. ''url(https:'' @ group1 m @ '')'') css)"

definition styleTag :: "string \<Rightarrow> string" where
  "styleTag css = ''<style data-inlined-google-fonts>'' @ css @ ''</style>''"

text \<open>
  The network: what \<open>fetch(href)\<close> does in iteration \<open>i\<close> of the loop. It throws, or
  it returns a response with its \<open>ok\<close> flag, whose \<open>text()\<close> throws or yields the
  stylesheet.
\<close>

datatype text_result = TextThrows js_error | Text string

datatype fetch_result = FetchThrows js_error | Response bool text_result

type_synonym fetcher = "nat \<Rightarrow> string \<Rightarrow> fetch_result"

text \<open>The inner \<open>try\<close> block of one iteration; \<open>Inl\<close> is what it throws.\<close>

definition inline_try :: "fetcher \<Rightarrow> nat \<Rightarrow> string \<Rightarrow> string \<Rightarrow> string \<Rightarrow> js_error + string" where
  "inline_try fetch i linkTag href inlined =
     (case fetch i href of
        FetchThrows e \<Rightarrow> Inl e
      | Response ok t \<Rightarrow>
          if \<not> ok then Inr inlined
          else (case t of
                  TextThrows e \<Rightarrow> Inl e
                | Text css \<Rightarrow>
                    Inr (replace_first linkTag (styleTag (rewrite_css css)) inlined)))"

text \<open>One iteration: \<open>continue\<close> without a href, and \<open>catch {}\<close> around the rest.\<close>

definition inline_step :: "fetcher \<Rightarrow> nat \<Rightarrow> string \<Rightarrow> string \<Rightarrow> string" where
  "inline_step fetch i linkTag inlined =
     (case first_match href_rx linkTag of
        None \<Rightarrow> inlined
      | Some href \<Rightarrow>
          if href = [] then inlined
          else (case inline_try fetch i linkTag href inlined of
                  Inl e \<Rightarrow> inlined
                | Inr r \<Rightarrow> r))"

fun inline_loop :: "fetcher \<Rightarrow> nat \<Rightarrow> string list \<Rightarrow> string \<Rightarrow> string" where
  "inline_loop fetch i [] inlined = inlined"
| "inline_loop fetch i (linkTag # rest) inlined =
     inline_loop fetch (Suc i) rest (inline_step fetch i linkTag inlined)"

definition links_of :: "string \<Rightarrow> string list" where
  "links_of html = all_matches (linkRegex Some) html"

text \<open>
  The function: the body of the outer \<open>try\<close> (which has nothing that throws on a
  string), and its \<open>catch { return html }\<close>. \<open>Inl\<close> would be a rejected promise.
\<close>

definition inline_body :: "fetcher \<Rightarrow> string \<Rightarrow> js_error + string" where
  "inline_body fetch html = Inr (inline_loop fetch 0 (links_of html) html)"

definition inlineGoogleFonts :: "fetcher \<Rightarrow> string \<Rightarrow> js_error + string" where
  "inlineGoogleFonts fetch html =
     (case inline_body fetch html of Inl e \<Rightarrow> Inr html | Inr r \<Rightarrow> Inr r)"

section \<open>Effects: the calls a handler makes\<close>

text \<open>
  A handler runs against an environment that decides, for every call into a library
  (the file system, the background-removal package, puppeteer, the network, the clock),
  whether the call returns or throws, and what it returns. The handler's run is the
  list of the calls it made, in order, and the response it sent (if any).
  \<open>EvLaunch ok\<close> records whether \<open>puppeteer.launch\<close> returned a browser, and
  \<open>EvBrowserClose ok\<close> whether \<open>browser.close()\<close> returned normally (a call that
  throws has not closed the browser); the other events record that the call was made.
\<close>

datatype event =
    EvReadFile string
  | EvRemoveBackground
  | EvArrayBuffer
  | EvUnlink string
  | EvLaunch bool
  | EvNewPage
  | EvSetUserAgent
  | EvSetBypassCSP
  | EvSetViewportInts "int option" "int option"
  | EvSetViewport jsval jsval jsval
  | EvEvaluateOnNewDocument
  | EvSetContent jsval
  | EvEvaluate
  | EvTimeout nat
  | EvScreenshot "(jsval \<times> jsval) option"
  | EvPageClose
  | EvBrowserClose bool
  | EvRespond nat

datatype res_body = JsonBody "(string \<times> jsval) list" | BufferBody "byte list" | ErrorPage

record response =
  status :: nat
  headers :: "(string \<times> string) list"
  body :: res_body

definition json_response :: "nat \<Rightarrow> (string \<times> jsval) list \<Rightarrow> response" where
  "json_response code obj =
     \<lparr>status = code, headers = [(''Content-Type'', ''application/json; charset=utf-8'')],
      body = JsonBody obj\<rparr>"

text \<open>A sequence of awaited calls: it stops at the first one that throws.\<close>

fun calls :: "(event \<times> js_error option) list \<Rightarrow> event list \<Rightarrow> js_error option \<times> event list" where
  "calls [] t = (None, t)"
| "calls ((ev, r) # rest) t =
     (case r of Some e \<Rightarrow> (Some e, t @ [ev]) | None \<Rightarrow> calls rest (t @ [ev]))"

definition closes_so_far :: "event list \<Rightarrow> nat" where
  "closes_so_far t =
     length (filter (\<lambda>ev. case ev of EvBrowserClose ok \<Rightarrow> True | _ \<Rightarrow> False) t)"

record browser_env =
  launch_r :: "js_error option"
  newPage_r :: "js_error option"
  setUserAgent_r :: "js_error option"
  setBypassCSP_r :: "js_error option"
  setViewport_r :: "js_error option"
  evaluateOnNewDocument_r :: "js_error option"
  setContent_r :: "js_error option"
  evaluate_r :: "js_error option"
  screenshot_r :: "js_error + byte list"
  pageClose_r :: "js_error option"
  browserClose_r :: "nat \<Rightarrow> js_error option"
  fetch_r :: fetcher
  node_env :: "string option"
  elapsed_ms :: int
  fmt_secs :: "int \<Rightarrow> string"

text \<open>
  \<open>browserClose_r env n\<close> is the outcome of the \<open>n\<close>-th call of \<open>browser.close()\<close>;
  \<open>node_env\<close> is \<open>process.env.NODE_ENV\<close>; \<open>elapsed_ms\<close> is the difference of the two
  readings of \<open>Date.now()\<close>, and \<open>fmt_secs\<close> is \<open>(ms / 1000).toFixed(2)\<close>, a formatting
  of a floating-point number that the model takes from the environment.
\<close>

definition prop_default :: "jsval \<Rightarrow> string \<Rightarrow> jsval \<Rightarrow> jsval" where
  "prop_default obj k d =
     with_default (case get_prop obj k of Inl e \<Rightarrow> JUndefined | Inr v \<Rightarrow> v) d"

section \<open>The simple render service: \<open>POST /api/render\<close>\<close>

text \<open>
  The \<open>try\<close> block. The result is what the block threw (\<open>Inl\<close>) or the response it
  sent, the calls made, and whether the variable \<open>browser\<close> has been assigned.
\<close>

definition api_render_try ::
  "browser_env \<Rightarrow> jsval \<Rightarrow> (js_error + response) \<times> event list \<times> bool" where
  "api_render_try env req_body =
     (case get_prop req_body ''html'' of
        Inl e \<Rightarrow> (Inl e, [], False)
      | Inr html \<Rightarrow>
          let width = prop_default req_body ''width'' (JNum 1200);
              height = prop_default req_body ''height'' (JNum 630) in
          if \<not> truthy html
          then (Inr (json_response 400 [(''error'', JStr ''HTML content is required'')]), [], False)
          else (case launch_r env of
             Some e \<Rightarrow> (Inl e, [EvLaunch False], False)
           | None \<Rightarrow>
              (case calls [(EvNewPage, newPage_r env),
                           (EvSetViewportInts (parse_int width) (parse_int height),
                              setViewport_r env),
                           (EvSetContent html, setContent_r env)] [EvLaunch True] of
                 (Some e, t) \<Rightarrow> (Inl e, t, True)
               | (None, t) \<Rightarrow>
                  (case screenshot_r env of
                     Inl e \<Rightarrow> (Inl e, t @ [EvScreenshot None], True)
                   | Inr screenshot \<Rightarrow>
                      (case browserClose_r env 0 of
                         Some e \<Rightarrow>
                           (Inl e, t @ [EvScreenshot None, EvBrowserClose False], True)
                       | None \<Rightarrow>
                          (Inr \<lparr>status = 200,
                                headers = [(''Content-Type'', ''image/png''),
                                  (''X-Processing-Time'', fmt_secs env (elapsed_ms env))],
                                body = BufferBody screenshot\<rparr>,
                           t @ [EvScreenshot None, EvBrowserClose True], True))))))"

text \<open>
  The handler: the \<open>try\<close> block and its \<open>catch\<close>. When \<open>browser.close()\<close> throws
  inside the \<open>catch\<close>, the handler's promise rejects and no response is sent.
\<close>

definition api_render :: "browser_env \<Rightarrow> jsval \<Rightarrow> response option \<times> event list" where
  "api_render env req_body =
     (case api_render_try env req_body of
        (Inr res, t, b) \<Rightarrow> (Some res, t @ [EvRespond (status res)])
      | (Inl error, t, b) \<Rightarrow>
          let res = json_response 500
                [(''error'', JStr ''Rendering failed''), (''details'', JStr (message error))] in
          if b then
            (case browserClose_r env (closes_so_far t) of
               Some e \<Rightarrow> (None, t @ [EvBrowserClose False])
             | None \<Rightarrow> (Some res, t @ [EvBrowserClose True, EvRespond 500]))
          else (Some res, t @ [EvRespond 500]))"

section \<open>The enhanced render service: \<open>captureHtml\<close> and \<open>POST /render\<close>\<close>

text \<open>
  The \<open>try\<close> block of \<open>captureHtml\<close>, with the parameter defaults of its signature.
  The result is the screenshot or what the block threw, the calls made, and whether
  \<open>browser\<close> has been assigned.
\<close>

definition captureHtml_try ::
  "browser_env \<Rightarrow> string \<Rightarrow> jsval \<Rightarrow> jsval \<Rightarrow> jsval
     \<Rightarrow> (js_error + byte list) \<times> event list \<times> bool" where
  "captureHtml_try env html width0 height0 scale0 =
     (let width = with_default width0 (JNum 1200);
          height = with_default height0 (JNum 800);
          deviceScaleFactor = with_default scale0 (JNum 2) in
      case inlineGoogleFonts (fetch_r env) (processHtmlForRendering html) of
        Inl e \<Rightarrow> (Inl e, [], False)
      | Inr cleanHtml \<Rightarrow>
         (case launch_r env of
            Some e \<Rightarrow> (Inl e, [EvLaunch False], False)
          | None \<Rightarrow>
             (case calls [(EvNewPage, newPage_r env),
                          (EvSetUserAgent, setUserAgent_r env),
                          (EvSetBypassCSP, setBypassCSP_r env),
                          (EvSetViewport width height deviceScaleFactor, setViewport_r env),
                          (EvEvaluateOnNewDocument, evaluateOnNewDocument_r env),
                          (EvSetContent (JStr cleanHtml), setContent_r env),
                          (EvEvaluate, evaluate_r env),
                          (EvTimeout 500, None)] [EvLaunch True] of
                (Some e, t) \<Rightarrow> (Inl e, t, True)
              | (None, t) \<Rightarrow>
                 (case screenshot_r env of
                    Inl e \<Rightarrow> (Inl e, t @ [EvScreenshot (Some (width, height))], True)
                  | Inr buffer \<Rightarrow>
                     (case calls [(EvPageClose, pageClose_r env),
                                  (EvBrowserClose (browserClose_r env 0 = None),
                                     browserClose_r env 0)]
                             (t @ [EvScreenshot (Some (width, height))]) of
                        (Some e, t') \<Rightarrow> (Inl e, t', True)
                      | (None, t') \<Rightarrow> (Inr buffer, t', True))))))"

text \<open>
  \<open>captureHtml\<close>: the \<open>try\<close> block and its \<open>catch\<close>, which closes the browser if there
  is one and throws the error again (or what \<open>browser.close()\<close> threw).
\<close>

definition captureHtml ::
  "browser_env \<Rightarrow> string \<Rightarrow> jsval \<Rightarrow> jsval \<Rightarrow> jsval \<Rightarrow> (js_error + byte list) \<times> event list" where
  "captureHtml env html width height deviceScaleFactor =
     (case captureHtml_try env html width height deviceScaleFactor of
        (Inr buffer, t, b) \<Rightarrow> (Inr buffer, t)
      | (Inl error, t, b) \<Rightarrow>
          if b then
            (case browserClose_r env (closes_so_far t) of
               Some e \<Rightarrow> (Inl e, t @ [EvBrowserClose False])
             | None \<Rightarrow> (Inl error, t @ [EvBrowserClose True]))
          else (Inl error, t))"

definition capture_failed :: "browser_env \<Rightarrow> js_error \<Rightarrow> response" where
  "capture_failed env error =
     json_response 500
       [(''error'', JStr ''Capture failed''),
        (''details'', JStr (message error)),
        (''stack'', if node_env env = Some ''development'' then JStr (stack error)
                    else JUndefined)]"

text \<open>The handler of \<open>POST /render\<close>.\<close>

definition render :: "browser_env \<Rightarrow> jsval \<Rightarrow> response option \<times> event list" where
  "render env req_body =
     (case get_prop req_body ''html'' of
        Inl e \<Rightarrow> (Some (capture_failed env e), [EvRespond 500])
      | Inr html \<Rightarrow>
          let width = prop_default req_body ''width'' (JNum 1200);
              height = prop_default req_body ''height'' (JNum 800);
              deviceScaleFactor = prop_default req_body ''deviceScaleFactor'' (JNum 2) in
          if \<not> truthy html \<or> typeof html \<noteq> ''string''
          then (Some (json_response 400 [(''error'', JStr ''Invalid html payload'')]),
                [EvRespond 400])
          else (case captureHtml env (to_string html) width height deviceScaleFactor of
                  (Inl e, t) \<Rightarrow> (Some (capture_failed env e), t @ [EvRespond 500])
                | (Inr buffer, t) \<Rightarrow>
                    (Some \<lparr>status = 200,
                           headers = [(''Content-Type'', ''image/png''),
                             (''Cache-Control'', ''no-cache, no-store, must-revalidate''),
                             (''Content-Length'', dec (length buffer)),
                             (''X-Success'', ''true'')],
                           body = BufferBody buffer\<rparr>,
                     t @ [EvRespond 200])))"

text \<open>
  The state of the browser along a run: open from a launch that returned a browser
  until a call of \<open>browser.close()\<close> returns normally. \<open>responds_open\<close> says that a
  response is sent while the browser is open.
\<close>

fun open_after :: "bool \<Rightarrow> event list \<Rightarrow> bool" where
  "open_after b [] = b"
| "open_after b (EvLaunch ok # es) = open_after (b \<or> ok) es"
| "open_after b (EvBrowserClose ok # es) = open_after (b \<and> \<not> ok) es"
| "open_after b (ev # es) = open_after b es"

fun responds_open :: "bool \<Rightarrow> event list \<Rightarrow> bool" where
  "responds_open b [] = False"
| "responds_open b (EvLaunch ok # es) = responds_open (b \<or> ok) es"
| "responds_open b (EvBrowserClose ok # es) = responds_open (b \<and> \<not> ok) es"
| "responds_open b (EvRespond n # es) = (b \<or> responds_open b es)"
| "responds_open b (ev # es) = responds_open b es"

text \<open>
  The weaker state: a browser has been launched and \<open>browser.close()\<close> has not been
  called since, whatever the call did. \<open>responds_pending\<close> says that a response is sent
  in that state.
\<close>

fun close_pending :: "bool \<Rightarrow> event list \<Rightarrow> bool" where
  "close_pending b [] = b"
| "close_pending b (EvLaunch ok # es) = close_pending (b \<or> ok) es"
| "close_pending b (EvBrowserClose ok # es) = close_pending False es"
| "close_pending b (ev # es) = close_pending b es"

fun responds_pending :: "bool \<Rightarrow> event list \<Rightarrow> bool" where
  "responds_pending b [] = False"
| "responds_pending b (EvLaunch ok # es) = responds_pending (b \<or> ok) es"
| "responds_pending b (EvBrowserClose ok # es) = responds_pending False es"
| "responds_pending b (EvRespond n # es) = (b \<or> responds_pending b es)"
| "responds_pending b (ev # es) = responds_pending b es"

section \<open>The background-removal service: \<open>POST /api/remove-background\<close>\<close>

subsection \<open>The upload middleware\<close>

record upload_file =
  fieldname :: string
  originalname :: string
  mimetype :: string
  size :: nat

definition allowedMimes :: "string list" where
  "allowedMimes = [''image/jpeg'', ''image/png'', ''image/jpg'', ''image/webp'']"

text \<open>\<open>fileFilter\<close>: the error it passes to its callback, if any.\<close>

definition fileFilter :: "upload_file \<Rightarrow> js_error option" where
  "fileFilter file =
     (if mimetype file \<in> set allowedMimes then None
      else Some \<lparr>message = ''Invalid file type. Only JPEG, PNG, JPG, and WEBP are allowed.'',
                 stack = ''Error'', err_status = None\<rparr>)"

definition fileSize_limit :: nat where
  "fileSize_limit = 10 * 1024 * 1024"

text \<open>
  \<open>upload.single('image')\<close> on a request that carries one file part or none: multer
  refuses a file part under another field name with its error \<open>LIMIT_UNEXPECTED_FILE\<close>,
  then asks \<open>fileFilter\<close>, stores the file, and fails with its error
  \<open>LIMIT_FILE_SIZE\<close> (removing what it had stored) when the file has more bytes than
  \<open>limits.fileSize\<close>. \<open>Inl\<close> is the error handed to the framework; \<open>Inr\<close> is
  \<open>req.file\<close>.
\<close>

definition upload_single :: "upload_file option \<Rightarrow> js_error + upload_file option" where
  "upload_single part =
     (case part of
        None \<Rightarrow> Inr None
      | Some file \<Rightarrow>
          if fieldname file \<noteq> ''image''
          then Inl \<lparr>message = ''Unexpected field'', stack = ''MulterError'',
                    err_status = None\<rparr>
          else
          (case fileFilter file of
             Some e \<Rightarrow> Inl e
           | None \<Rightarrow>
               if size file > fileSize_limit
               then Inl \<lparr>message = ''File too large'', stack = ''MulterError'',
                         err_status = None\<rparr>
               else Inr (Some file)))"

text \<open>
  The application registers no error-handling middleware, so an error of a middleware
  goes to the framework's default handler: the route's handler is skipped, and the
  status is the error's own \<open>status\<close> when that is a 4xx or 5xx code, and 500 otherwise.
\<close>

definition default_error_response :: "js_error \<Rightarrow> response" where
  "default_error_response e =
     \<lparr>status = (case err_status e of
                  Some n \<Rightarrow> if 400 \<le> n \<and> n < 600 then n else 500
                | None \<Rightarrow> 500),
      headers = [(''Content-Type'', ''text/html; charset=utf-8'')],
      body = ErrorPage\<rparr>"

subsection \<open>The handler\<close>

text \<open>
  \<open>unlink_r env n\<close> is the outcome of the \<open>n\<close>-th call of \<open>fs.unlink\<close>: \<open>None\<close> when the
  file has been removed, an error when it has not. \<open>stored_path\<close> is the path the disk
  storage gave the upload (\<open>uploads/\<close>, the field name, a time stamp and a random
  number, the extension).
\<close>

record removal_env =
  stored_path :: string
  readFile_r :: "js_error + byte list"
  removeBackground_r :: "byte list \<Rightarrow> js_error + byte list"
  arrayBuffer_r :: "js_error option"
  unlink_r :: "nat \<Rightarrow> js_error option"
  removal_node_env :: "string option"
  removal_elapsed_ms :: int
  removal_fmt_secs :: "int \<Rightarrow> string"

text \<open>The files on disk after \<open>fs.unlink(p)\<close> with the given outcome.\<close>

definition unlink_fs :: "string \<Rightarrow> js_error option \<Rightarrow> string set \<Rightarrow> string set" where
  "unlink_fs p r files = (case r of None \<Rightarrow> files - {p} | Some e \<Rightarrow> files)"

text \<open>
  The \<open>try\<close> block: what it threw or the response it sent, the calls made, the value of
  \<open>tempPath\<close>, and the files on disk.
\<close>

definition remove_background_try ::
  "removal_env \<Rightarrow> upload_file option \<Rightarrow> string set
     \<Rightarrow> (js_error + response) \<times> event list \<times> string option \<times> string set" where
  "remove_background_try env req_file files =
     (case req_file of
        None \<Rightarrow> (Inr (json_response 400 [(''error'', JStr ''No image provided'')]), [], None, files)
      | Some file \<Rightarrow>
          let tempPath = stored_path env in
          (case readFile_r env of
             Inl e \<Rightarrow> (Inl e, [EvReadFile tempPath], Some tempPath, files)
           | Inr imageBuffer \<Rightarrow>
              (case removeBackground_r env imageBuffer of
                 Inl e \<Rightarrow> (Inl e, [EvReadFile tempPath, EvRemoveBackground], Some tempPath, files)
               | Inr resultBlob \<Rightarrow>
                  (case arrayBuffer_r env of
                     Some e \<Rightarrow>
                       (Inl e, [EvReadFile tempPath, EvRemoveBackground, EvArrayBuffer],
                        Some tempPath, files)
                   | None \<Rightarrow>
                      (let t = [EvReadFile tempPath, EvRemoveBackground, EvArrayBuffer,
                                EvUnlink tempPath];
                           files' = unlink_fs tempPath (unlink_r env 0) files in
                       case unlink_r env 0 of
                         Some e \<Rightarrow> (Inl e, t, Some tempPath, files')
                       | None \<Rightarrow>
                          (Inr \<lparr>status = 200,
                                headers = [(''Content-Type'', ''image/png''),
                                  (''X-Processing-Time'',
                                     removal_fmt_secs env (removal_elapsed_ms env))],
                                body = BufferBody resultBlob\<rparr>,
                           t, Some tempPath, files'))))))"

definition unlinks_so_far :: "event list \<Rightarrow> nat" where
  "unlinks_so_far t = length (filter (\<lambda>ev. case ev of EvUnlink p \<Rightarrow> True | _ \<Rightarrow> False) t)"

definition removal_failed :: "removal_env \<Rightarrow> js_error \<Rightarrow> response" where
  "removal_failed env error =
     json_response 500
       [(''error'', JStr ''Background removal failed. Please try with a different image.''),
        (''details'', if removal_node_env env = Some ''development'' then JStr (message error)
                      else JUndefined)]"

text \<open>
  The handler, run on \<open>req.file\<close>: the \<open>try\<close> block and its \<open>catch\<close>, which unlinks
  \<open>tempPath\<close> when it is set, ignores (logs) a failure of that, and answers 500.
\<close>

definition remove_background_handler ::
  "removal_env \<Rightarrow> upload_file option \<Rightarrow> string set \<Rightarrow> response \<times> event list \<times> string set" where
  "remove_background_handler env req_file files =
     (case remove_background_try env req_file files of
        (Inr res, t, tp, files') \<Rightarrow> (res, t @ [EvRespond (status res)], files')
      | (Inl error, t, tp, files') \<Rightarrow>
          (case tp of
             None \<Rightarrow> (removal_failed env error, t @ [EvRespond 500], files')
           | Some tempPath \<Rightarrow>
               (removal_failed env error, t @ [EvUnlink tempPath, EvRespond 500],
                unlink_fs tempPath (unlink_r env (unlinks_so_far t)) files')))"

text \<open>
  The route: the upload middleware, then the handler. \<open>files\<close> are the files on disk
  before the request; a file that the middleware accepts is on disk, at
  \<open>stored_path\<close>, when the handler starts.
\<close>

definition api_remove_background ::
  "removal_env \<Rightarrow> upload_file option \<Rightarrow> string set \<Rightarrow> response \<times> event list \<times> string set" where
  "api_remove_background env part files =
     (case upload_single part of
        Inl e \<Rightarrow> (default_error_response e, [], files)
      | Inr None \<Rightarrow> remove_background_handler env None files
      | Inr (Some file) \<Rightarrow>
          remove_background_handler env (Some file) (insert (stored_path env) files))"

section \<open>Notions used in the statements\<close>

text \<open>A property of the object sent by \<open>res.json\<close>.\<close>

definition json_field :: "response \<Rightarrow> string \<Rightarrow> jsval option" where
  "json_field res k = (case body res of JsonBody obj \<Rightarrow> map_of obj k | _ \<Rightarrow> None)"

text \<open>
  The error that the \<open>try\<close> block of the background-removal handler throws: that of
  the first of its calls (read, background removal, conversion, unlink) that throws, if
  any.
\<close>

definition first_failure :: "removal_env \<Rightarrow> js_error option" where
  "first_failure env =
     (case readFile_r env of
        Inl e \<Rightarrow> Some e
      | Inr buf \<Rightarrow>
          (case removeBackground_r env buf of
             Inl e \<Rightarrow> Some e
           | Inr blob \<Rightarrow>
               (case arrayBuffer_r env of Some e \<Rightarrow> Some e | None \<Rightarrow> unlink_r env 0)))"

text \<open>Every call of the capture pipeline, other than the screenshot, returns normally.\<close>

definition calls_succeed :: "browser_env \<Rightarrow> bool" where
  "calls_succeed env =
     (launch_r env = None \<and> newPage_r env = None \<and> setUserAgent_r env = None \<and>
      setBypassCSP_r env = None \<and> setViewport_r env = None \<and>
      evaluateOnNewDocument_r env = None \<and> setContent_r env = None \<and>
      evaluate_r env = None \<and> pageClose_r env = None \<and> browserClose_r env 0 = None)"

text \<open>
  A fetch has failed when it threw, when the response is not \<open>ok\<close>, or when reading the
  text of the response threw.
\<close>

definition fetch_failed :: "fetch_result \<Rightarrow> bool" where
  "fetch_failed r =
     (case r of
        FetchThrows e \<Rightarrow> True
      | Response ok t \<Rightarrow> \<not> ok \<or> (case t of TextThrows e \<Rightarrow> True | Text css \<Rightarrow> False))"

section \<open>Concrete requests and environments\<close>

text \<open>
  The render services: an environment in which every call succeeds, the screenshot is a
  small PNG file and every \<open>fetch\<close> throws, and variants of it in which the screenshot
  throws, the screenshot and every \<open>browser.close()\<close> throw, and the screenshot is empty;
  a request body with minimal HTML and no dimensions.
\<close>

definition boom :: js_error where
  "boom = \<lparr>message = ''boom'', stack = ''Error: boom'', err_status = None\<rparr>"

definition png_signature :: "byte list" where
  "png_signature = [0x89, 0x50, 0x4E, 0x47, 0x0D, 0x0A, 0x1A, 0x0A]"

definition ok_env :: browser_env where
  "ok_env = \<lparr>launch_r = None, newPage_r = None, setUserAgent_r = None, setBypassCSP_r = None,
     setViewport_r = None, evaluateOnNewDocument_r = None, setContent_r = None,
     evaluate_r = None, screenshot_r = Inr (png_signature @ [0, 1, 2]), pageClose_r = None,
     browserClose_r = (\<lambda>n. None), fetch_r = (\<lambda>i u. FetchThrows boom),
     node_env = None, elapsed_ms = 1500, fmt_secs = (\<lambda>ms. ''1.50'')\<rparr>"

definition shot_fails_env :: browser_env where
  "shot_fails_env = ok_env\<lparr>screenshot_r := Inl boom\<rparr>"

definition close_fails_env :: browser_env where
  "close_fails_env = shot_fails_env\<lparr>browserClose_r := (\<lambda>n. Some boom)\<rparr>"

definition empty_shot_env :: browser_env where
  "empty_shot_env = ok_env\<lparr>screenshot_r := Inr []\<rparr>"

definition hi_request :: jsval where
  "hi_request = JObj [(''html'', JStr ''<h1>Hi</h1>'')]"

text \<open>
  The background-removal service: three uploads (a PNG, a GIF, a PNG of more than 10MB),
  an environment in which every call succeeds, and variants of it in which \<open>unlink\<close>
  throws, the read throws, both throw, and the background removal returns an empty
  buffer.
\<close>

definition png_file :: upload_file where
  "png_file = \<lparr>fieldname = ''image'', originalname = ''a.png'', mimetype = ''image/png'',
     size = 3\<rparr>"

definition gif_file :: upload_file where
  "gif_file = \<lparr>fieldname = ''image'', originalname = ''a.gif'', mimetype = ''image/gif'',
     size = 3\<rparr>"

definition big_file :: upload_file where
  "big_file = \<lparr>fieldname = ''image'', originalname = ''b.png'', mimetype = ''image/png'',
     size = 10 * 1024 * 1024 + 1\<rparr>"

definition ok_removal_env :: removal_env where
  "ok_removal_env = \<lparr>stored_path = ''uploads/image-1-2.png'', readFile_r = Inr [1, 2, 3],
     removeBackground_r = (\<lambda>b. Inr (png_signature @ [9])), arrayBuffer_r = None,
     unlink_r = (\<lambda>n. None), removal_node_env = None, removal_elapsed_ms = 2000,
     removal_fmt_secs = (\<lambda>ms. ''2.00'')\<rparr>"

definition unlink_fails_env :: removal_env where
  "unlink_fails_env = ok_removal_env\<lparr>unlink_r := (\<lambda>n. Some boom)\<rparr>"

definition read_fails_env :: removal_env where
  "read_fails_env = ok_removal_env\<lparr>readFile_r := Inl boom\<rparr>"

definition read_unlink_fail_env :: removal_env where
  "read_unlink_fail_env = ok_removal_env\<lparr>readFile_r := Inl boom, unlink_r := (\<lambda>n. Some boom)\<rparr>"

definition empty_blob_env :: removal_env where
  "empty_blob_env = ok_removal_env\<lparr>removeBackground_r := (\<lambda>b. Inr [])\<rparr>"

text \<open>
  A page with two link tags, the first of which is malformed (it has no closing
  \<open>>\<close> of its own) and so ends with the text of the second; the first \<open>href\<close> of the
  first tag is \<open>f\<close>, which \<open>fetch\<close> refuses, and the stylesheet of the second is served.
\<close>

definition dq :: string where
  "dq = [CHR 0x22]"

definition tagS :: string where
  "tagS = ''<link href='' @ dq @ ''https://fonts.googleapis.com/s'' @ dq @ ''>''"

definition tagF :: string where
  "tagF = ''<link href='' @ dq @ ''f'' @ dq @ '' '' @ tagS"

definition fetch_only_s :: fetcher where
  "fetch_only_s i url =
     (if url = ''https://fonts.googleapis.com/s'' then Response True (Text ''p{}'')
      else FetchThrows boom)"

text \<open>
  Three pages: an \<open>iframe\<close> whose content has a line break, a \<open>script\<close> tag split by
  another one, and a script that contains the text \<open></head>\<close>.
\<close>

definition multiline_iframe :: string where
  "multiline_iframe = ''<iframe src=x>'' @ [CHR 0x0A] @ ''</iframe>''"

definition nested_script :: string where
  "nested_script = ''<scr<script></script>ipt>alert(1)</script>''"

definition head_in_script :: string where
  "head_in_script = ''<script></head></script>''"

section \<open>Facts about decimal text and \<open>parseInt\<close>\<close>

lemma digit_val_digit_char: "d < 10 \<Longrightarrow> digit_val 10 (digit_char d) = Some d"
  by (simp add: digit_val_def digit_char_def Let_def)

lemma digit_char_range: "d < 10 \<Longrightarrow> (of_char (digit_char d) :: nat) = 48 + d"
  by (simp add: digit_char_def)

lemma dec_nonempty: "dec n \<noteq> []"
  by (subst dec.simps) simp

lemma dec_digits: "c \<in> set (dec n) \<Longrightarrow> \<exists>d<10. c = digit_char d"
proof (induction n arbitrary: c rule: dec.induct)
  case (1 n)
  show ?case
  proof (cases "n < 10")
    case True
    with "1.prems" show ?thesis by (subst (asm) dec.simps) auto
  next
    case False
    from "1.prems" False have "c \<in> set (dec (n div 10)) \<or> c = digit_char (n mod 10)"
      by (subst (asm) dec.simps) auto
    then show ?thesis
    proof
      assume "c \<in> set (dec (n div 10))"
      with "1.IH" False show ?thesis by blast
    next
      assume "c = digit_char (n mod 10)"
      then show ?thesis by (intro exI [of _ "n mod 10"]) simp
    qed
  qed
qed

lemma digits_value_snoc:
  "digits_value r (ds @ [c]) = digits_value r ds * r + the (digit_val r c)"
  by (simp add: digits_value_def)

lemma digits_value_dec: "digits_value 10 (dec n) = n"
proof (induction n rule: dec.induct)
  case (1 n)
  show ?case
  proof (cases "n < 10")
    case True
    then show ?thesis
      by (subst dec.simps) (simp add: digits_value_def digit_val_digit_char)
  next
    case False
    with "1.IH" have "digits_value 10 (dec (n div 10)) = n div 10" by simp
    with False show ?thesis
      by (subst dec.simps) (simp add: digits_value_snoc digit_val_digit_char)
  qed
qed

lemma dec_all_digits: "takeWhile (\<lambda>c. digit_val 10 c \<noteq> None) (dec n) = dec n"
proof -
  have "\<forall>c\<in>set (dec n). digit_val 10 c \<noteq> None"
    using dec_digits digit_val_digit_char by fastforce
  then show ?thesis by (simp only: takeWhile_eq_all_conv)
qed

lemma dec_all_digits_ex: "takeWhile (\<lambda>c. \<exists>y. digit_val 10 c = Some y) (dec n) = dec n"
  using dec_all_digits [of n] by simp

lemma hd_dec: "\<exists>d<10. hd (dec n) = digit_char d"
  using dec_digits [of "hd (dec n)" n] dec_nonempty [of n] by simp

lemma ws_first_bytes:
  "w \<in> set ws_encodings \<Longrightarrow>
     w \<noteq> [] \<and> (of_char (hd w) :: nat) \<in> {9, 10, 11, 12, 13, 32, 194, 225, 226, 227, 239}"
  by (auto simp: ws_encodings_def)

lemma ws_len_zero:
  assumes "(of_char c :: nat) \<notin> {9, 10, 11, 12, 13, 32, 194, 225, 226, 227, 239}"
  shows "ws_len (c # s) = 0"
proof -
  have "\<not> (\<exists>w. w \<in> set ws_encodings \<and> prefix w (c # s))"
  proof
    assume "\<exists>w. w \<in> set ws_encodings \<and> prefix w (c # s)"
    then obtain w where w: "w \<in> set ws_encodings" "prefix w (c # s)" by blast
    from ws_first_bytes [OF w(1)] have ne: "w \<noteq> []"
      and b: "(of_char (hd w) :: nat) \<in> {9, 10, 11, 12, 13, 32, 194, 225, 226, 227, 239}"
      by blast+
    from w(2) ne have "hd w = c" by (cases w) auto
    with b assms show False by simp
  qed
  then have "find (\<lambda>w. prefix w (c # s)) ws_encodings = None"
    unfolding find_None_iff by blast
  then show ?thesis by (simp add: ws_len_def)
qed

lemma ws_len_digit: "d < 10 \<Longrightarrow> ws_len (digit_char d # s) = 0"
proof -
  assume "d < 10"
  then have "(of_char (digit_char d) :: nat) = 48 + d" by (rule digit_char_range)
  with \<open>d < 10\<close> show ?thesis by (intro ws_len_zero) simp
qed

lemma trim_start_dec: "trim_start (dec n) = dec n"
proof -
  obtain c cs where cs: "dec n = c # cs" using dec_nonempty [of n] by (cases "dec n") auto
  with hd_dec [of n] obtain d where "d < 10" "c = digit_char d" by auto
  then have "ws_len (dec n) = 0" using cs ws_len_digit by simp
  then show ?thesis by (subst trim_start.simps) simp
qed

lemma ws_len_minus: "ws_len (CHR ''-'' # s) = 0"
  by (rule ws_len_zero) simp

lemma trim_start_minus: "trim_start (CHR ''-'' # s) = CHR ''-'' # s"
  by (subst trim_start.simps) (simp add: ws_len_minus)

lemma digit_char_not_sign: "d < 10 \<Longrightarrow> digit_char d \<noteq> CHR ''-'' \<and> digit_char d \<noteq> CHR ''+''"
proof -
  assume "d < 10"
  then have "(of_char (digit_char d) :: nat) = 48 + d" by (rule digit_char_range)
  then show ?thesis by auto
qed

lemma dec_not_hex: "\<not> prefix ''0x'' (dec n) \<and> \<not> prefix ''0X'' (dec n)"
proof -
  have "c \<in> set (dec n) \<Longrightarrow> (of_char c :: nat) < 58" for c
    using dec_digits [of c n] digit_char_range by fastforce
  from this [of "CHR ''x''"] this [of "CHR ''X''"]
  have x: "CHR ''x'' \<notin> set (dec n)" "CHR ''X'' \<notin> set (dec n)" by auto
  show ?thesis
  proof (intro conjI notI)
    assume "prefix ''0x'' (dec n)"
    then have "set ''0x'' \<subseteq> set (dec n)" by (rule set_mono_prefix)
    with x show False by simp
  next
    assume "prefix ''0X'' (dec n)"
    then have "set ''0X'' \<subseteq> set (dec n)" by (rule set_mono_prefix)
    with x show False by simp
  qed
qed

lemma parse_digits_dec:
  "(let s1 = dec n;
        hex = (prefix ''0x'' s1 \<or> prefix ''0X'' s1);
        radix = (if hex then 16 else 10);
        s2 = (if hex then drop 2 s1 else s1);
        z = takeWhile (\<lambda>c. digit_val radix c \<noteq> None) s2
    in (z, radix)) = (dec n, 10)"
  using dec_not_hex [of n] by (simp add: Let_def dec_all_digits_ex)

lemma parse_int_num:
  assumes "\<bar>n\<bar> < 10 ^ 21"
  shows "parse_int (JNum n) = Some n"
proof (cases "n < 0")
  case False
  obtain d where d: "d < 10" "hd (dec (nat n)) = digit_char d" using hd_dec by blast
  have s0: "trim_start (to_string (JNum n)) = dec (nat n)"
    using assms False by (simp add: num_to_string_def Let_def trim_start_dec)
  have nosign: "hd (dec (nat n)) \<noteq> CHR ''-''" "hd (dec (nat n)) \<noteq> CHR ''+''"
    using d digit_char_not_sign by auto
  show ?thesis
    unfolding parse_int_def s0
    using nosign dec_not_hex [of "nat n"] False
    by (simp add: Let_def dec_all_digits_ex dec_nonempty digits_value_dec)
next
  case True
  have s0: "trim_start (to_string (JNum n)) = CHR ''-'' # dec (nat (- n))"
    using assms True by (simp add: num_to_string_def Let_def trim_start_minus) 
  show ?thesis
    unfolding parse_int_def s0
    using dec_not_hex [of "nat (- n)"] True
    by (simp add: Let_def dec_all_digits_ex dec_nonempty digits_value_dec)
qed

section \<open>Rejection of invalid render requests\<close>

text \<open>
  Claim C2, as amended. The enhanced handler (\<open>POST /render\<close>) answers 400 without
  launching a browser whenever \<open>html\<close> is falsy or is not a string. The simple handler
  (\<open>POST /api/render\<close>) tests \<open>!html\<close> only: it answers 400 without launching a
  browser when \<open>html\<close> is falsy (missing, \<open>null\<close>, \<open>false\<close>, \<open>0\<close>, the empty string),
  and for every other value, a string or not, its first call is \<open>puppeteer.launch\<close>.
\<close>

theorem render_rejects_invalid_html:
  "(get_prop req_body ''html'' = Inr html \<and> (\<not> truthy html \<or> typeof html \<noteq> ''string'')
     \<longrightarrow> render env req_body =
           (Some (json_response 400 [(''error'', JStr ''Invalid html payload'')]), [EvRespond 400]))
   \<and> (get_prop req_body ''html'' = Inr html \<and> \<not> truthy html
     \<longrightarrow> api_render env req_body =
           (Some (json_response 400 [(''error'', JStr ''HTML content is required'')]),
            [EvRespond 400]))
   \<and> (get_prop req_body ''html'' = Inr html \<and> truthy html
     \<longrightarrow> (\<exists>t. snd (api_render env req_body) = EvLaunch (launch_r env = None) # t))"
proof (intro conjI impI)
  assume "get_prop req_body ''html'' = Inr html \<and> (\<not> truthy html \<or> typeof html \<noteq> ''string'')"
  then show "render env req_body =
      (Some (json_response 400 [(''error'', JStr ''Invalid html payload'')]), [EvRespond 400])"
    by (auto simp: render_def Let_def)
next
  assume "get_prop req_body ''html'' = Inr html \<and> \<not> truthy html"
  then show "api_render env req_body =
      (Some (json_response 400 [(''error'', JStr ''HTML content is required'')]),
       [EvRespond 400])"
    by (simp add: api_render_def api_render_try_def Let_def json_response_def)
next
  assume "get_prop req_body ''html'' = Inr html \<and> truthy html"
  then show "\<exists>t. snd (api_render env req_body) = EvLaunch (launch_r env = None) # t"
    by (auto simp: api_render_def api_render_try_def Let_def
             split: option.splits sum.splits prod.splits)
qed

theorem render_rejects_invalid_html_witness:
  "render ok_env (JObj [(''html'', JStr [])]) =
     (Some (json_response 400 [(''error'', JStr ''Invalid html payload'')]), [EvRespond 400])
   \<and> render ok_env (JObj [(''html'', JNum 42)]) =
     (Some (json_response 400 [(''error'', JStr ''Invalid html payload'')]), [EvRespond 400])
   \<and> api_render ok_env (JObj [(''html'', JStr [])]) =
     (Some (json_response 400 [(''error'', JStr ''HTML content is required'')]), [EvRespond 400])
   \<and> (\<exists>t. snd (api_render ok_env (JObj [(''html'', JNum 42)])) = EvLaunch True # t)"
  using render_rejects_invalid_html [of "JObj [(''html'', JStr [])]" "JStr []" ok_env]
    render_rejects_invalid_html [of "JObj [(''html'', JNum 42)]" "JNum 42" ok_env]
  by (simp add: ok_env_def)

text \<open>
  Claim C2 as stated fails for the simple handler: with \<open>html = 42\<close>, not a string, it
  launches a browser and answers 200 with the screenshot.
\<close>

theorem api_render_nonstring_html_counterexample:
  "\<not> (\<forall>env req_body html.
        get_prop req_body ''html'' = Inr html \<and> (html = JStr [] \<or> typeof html \<noteq> ''string'')
        \<longrightarrow> (\<exists>res t. api_render env req_body = (Some res, t) \<and> status res = 400
                 \<and> (\<forall>ok. EvLaunch ok \<notin> set t)))"
proof
  assume a: "\<forall>env req_body html.
        get_prop req_body ''html'' = Inr html \<and> (html = JStr [] \<or> typeof html \<noteq> ''string'')
        \<longrightarrow> (\<exists>res t. api_render env req_body = (Some res, t) \<and> status res = 400
                 \<and> (\<forall>ok. EvLaunch ok \<notin> set t))"
  have "get_prop (JObj [(''html'', JNum 42)]) ''html'' = Inr (JNum 42) \<and>
        (JNum 42 = JStr [] \<or> typeof (JNum 42) \<noteq> ''string'')" by simp
  with a obtain res t where
    r: "api_render ok_env (JObj [(''html'', JNum 42)]) = (Some res, t)" "status res = 400"
    by blast
  have "fst (api_render ok_env (JObj [(''html'', JNum 42)])) =
     Some \<lparr>status = 200, headers = [(''Content-Type'', ''image/png''),
        (''X-Processing-Time'', ''1.50'')], body = BufferBody (png_signature @ [0, 1, 2])\<rparr>"
    by (simp add: api_render_def api_render_try_def ok_env_def prop_default_def with_default_def)
  with r show False by simp
qed

section \<open>The browser is closed on every path\<close>

lemma inlineGoogleFonts_returns:
  "inlineGoogleFonts fetch html = Inr (inline_loop fetch 0 (links_of html) html)"
  by (simp add: inlineGoogleFonts_def inline_body_def)

lemma close_pending_append:
  "close_pending b (t @ es) = close_pending (close_pending b t) es"
  by (induction b t rule: close_pending.induct) simp_all

lemma responds_pending_append:
  "responds_pending b (t @ es) =
     (responds_pending b t \<or> responds_pending (close_pending b t) es)"
  by (induction b t rule: responds_pending.induct) auto

lemma open_after_append: "open_after b (t @ es) = open_after (open_after b t) es"
  by (induction b t rule: open_after.induct) simp_all

lemma responds_open_append:
  "responds_open b (t @ es) = (responds_open b t \<or> responds_open (open_after b t) es)"
  by (induction b t rule: responds_open.induct) auto

lemma api_render_close_called:
  "\<not> close_pending False (snd (api_render env req_body)) \<and>
   \<not> responds_pending False (snd (api_render env req_body))"
  by (auto simp: api_render_def api_render_try_def Let_def closes_so_far_def
           split: option.splits sum.splits)

lemma captureHtml_close_called:
  "\<not> close_pending False (snd (captureHtml env html w h d)) \<and>
   \<not> responds_pending False (snd (captureHtml env html w h d))"
  by (auto simp: captureHtml_def captureHtml_try_def Let_def closes_so_far_def
           split: option.splits sum.splits)

lemma render_close_called:
  "\<not> close_pending False (snd (render env req_body)) \<and>
   \<not> responds_pending False (snd (render env req_body))"
proof -
  have key: "\<not> close_pending False t \<and> \<not> responds_pending False t"
    if "captureHtml env html w h d = (x, t)" for html w h d x t
    using captureHtml_close_called [of env html w h d] that by simp
  show ?thesis
    by (auto simp: render_def Let_def close_pending_append responds_pending_append
             split: sum.splits prod.splits dest: key)
qed

lemma api_render_closed:
  assumes "\<forall>n. browserClose_r env n = None"
  shows "\<not> open_after False (snd (api_render env req_body)) \<and>
   \<not> responds_open False (snd (api_render env req_body))"
  using assms
  by (auto simp: api_render_def api_render_try_def Let_def closes_so_far_def
           split: option.splits sum.splits)

lemma captureHtml_closed:
  assumes "\<forall>n. browserClose_r env n = None"
  shows "\<not> open_after False (snd (captureHtml env html w h d)) \<and>
   \<not> responds_open False (snd (captureHtml env html w h d))"
  using assms
  by (auto simp: captureHtml_def captureHtml_try_def Let_def closes_so_far_def
           split: option.splits sum.splits)

lemma render_closed:
  assumes "\<forall>n. browserClose_r env n = None"
  shows "\<not> open_after False (snd (render env req_body)) \<and>
   \<not> responds_open False (snd (render env req_body))"
proof -
  have key: "\<not> open_after False t \<and> \<not> responds_open False t"
    if "captureHtml env html w h d = (x, t)" for html w h d x t
    using captureHtml_closed [OF assms, of html w h d] that by simp
  show ?thesis
    by (auto simp: render_def Let_def open_after_append responds_open_append
             split: sum.splits prod.splits dest: key)
qed

lemma api_render_ok_trace:
  "snd (api_render ok_env (JObj [(''html'', JStr ''<h1>Hi</h1>'')])) =
     [EvLaunch True, EvNewPage, EvSetViewportInts (Some 1200) (Some 630),
      EvSetContent (JStr ''<h1>Hi</h1>''), EvScreenshot None, EvBrowserClose True,
      EvRespond 200]"
  by (simp add: api_render_def api_render_try_def ok_env_def prop_default_def with_default_def
        parse_int_num)

lemma api_render_fail_trace:
  "snd (api_render shot_fails_env (JObj [(''html'', JStr ''<h1>Hi</h1>'')])) =
     [EvLaunch True, EvNewPage, EvSetViewportInts (Some 1200) (Some 630),
      EvSetContent (JStr ''<h1>Hi</h1>''), EvScreenshot None, EvBrowserClose True,
      EvRespond 500]"
  by (simp add: api_render_def api_render_try_def ok_env_def shot_fails_env_def prop_default_def
        with_default_def parse_int_num closes_so_far_def)

lemma render_close_fails_trace:
  "snd (render close_fails_env hi_request) =
     [EvLaunch True, EvNewPage, EvSetUserAgent, EvSetBypassCSP,
      EvSetViewport (JNum 1200) (JNum 800) (JNum 2), EvEvaluateOnNewDocument,
      EvSetContent (JStr (inline_loop (fetch_r close_fails_env) 0
          (links_of (processHtmlForRendering ''<h1>Hi</h1>''))
          (processHtmlForRendering ''<h1>Hi</h1>''))), EvEvaluate,
      EvTimeout 500, EvScreenshot (Some (JNum 1200, JNum 800)), EvBrowserClose False,
      EvRespond 500]"
  unfolding render_def hi_request_def
  by (simp add: captureHtml_def captureHtml_try_def inlineGoogleFonts_returns prop_default_def
        with_default_def Let_def closes_so_far_def)
     (simp add: close_fails_env_def shot_fails_env_def ok_env_def closes_so_far_def)

text \<open>
  Claim C5, as amended. In the run of either render handler, and of \<open>captureHtml\<close>
  alone, every launch that returned a browser is followed by a call of
  \<open>browser.close()\<close>, on the success path and on every error path, and no response is
  sent between the launch and that call; this holds whichever of the calls throw. The
  browser is closed at the end of the run, and at the time of the response, whenever the
  calls of \<open>browser.close()\<close> return normally.
\<close>

theorem browser_close_called_on_every_path:
  "\<not> close_pending False (snd (api_render env req_body)) \<and>
   \<not> responds_pending False (snd (api_render env req_body)) \<and>
   \<not> close_pending False (snd (captureHtml env html w h d)) \<and>
   \<not> close_pending False (snd (render env req_body)) \<and>
   \<not> responds_pending False (snd (render env req_body)) \<and>
   ((\<forall>n. browserClose_r env n = None) \<longrightarrow>
      \<not> open_after False (snd (api_render env req_body)) \<and>
      \<not> responds_open False (snd (api_render env req_body)) \<and>
      \<not> open_after False (snd (captureHtml env html w h d)) \<and>
      \<not> open_after False (snd (render env req_body)) \<and>
      \<not> responds_open False (snd (render env req_body)))"
  using api_render_close_called captureHtml_close_called render_close_called
    api_render_closed captureHtml_closed render_closed
  by blast

theorem browser_close_called_on_every_path_witness:
  "snd (api_render shot_fails_env (JObj [(''html'', JStr ''<h1>Hi</h1>'')])) =
     [EvLaunch True, EvNewPage, EvSetViewportInts (Some 1200) (Some 630),
      EvSetContent (JStr ''<h1>Hi</h1>''), EvScreenshot None, EvBrowserClose True,
      EvRespond 500]
   \<and> \<not> close_pending False
         (snd (api_render shot_fails_env (JObj [(''html'', JStr ''<h1>Hi</h1>'')])))
   \<and> \<not> open_after False (snd (api_render shot_fails_env (JObj [(''html'', JStr ''<h1>Hi</h1>'')])))
   \<and> \<not> responds_open False
         (snd (api_render shot_fails_env (JObj [(''html'', JStr ''<h1>Hi</h1>'')])))"
proof -
  have c: "\<forall>n. browserClose_r shot_fails_env n = None"
    by (simp add: shot_fails_env_def ok_env_def)
  note closed = browser_close_called_on_every_path
    [of shot_fails_env "JObj [(''html'', JStr ''<h1>Hi</h1>'')]" "[]" JUndefined JUndefined
      JUndefined]
  from closed c have
    "\<not> close_pending False
        (snd (api_render shot_fails_env (JObj [(''html'', JStr ''<h1>Hi</h1>'')])))"
    "\<not> open_after False (snd (api_render shot_fails_env (JObj [(''html'', JStr ''<h1>Hi</h1>'')])))"
    "\<not> responds_open False
        (snd (api_render shot_fails_env (JObj [(''html'', JStr ''<h1>Hi</h1>'')])))"
    by blast+
  with api_render_fail_trace show ?thesis by blast
qed

text \<open>
  Claim C5 as stated fails: when the screenshot throws and \<open>browser.close()\<close> throws in
  the \<open>catch\<close> block of \<open>captureHtml\<close>, the enhanced handler answers 500 while the
  browser it launched is still open.
\<close>

theorem browser_left_open_counterexample:
  "\<not> (\<forall>env req_body. \<not> responds_open False (snd (render env req_body)) \<and>
                      \<not> open_after False (snd (render env req_body)))"
proof
  assume "\<forall>env req_body. \<not> responds_open False (snd (render env req_body)) \<and>
                      \<not> open_after False (snd (render env req_body))"
  then have "\<not> responds_open False (snd (render close_fails_env hi_request))" by blast
  then show False unfolding render_close_fails_trace by simp
qed

section \<open>Default dimensions of a render request\<close>

lemma prop_default_absent: "map_of kvs k = None \<Longrightarrow> prop_default (JObj kvs) k d = d"
  by (simp add: prop_default_def with_default_def)

lemma prop_default_supplied:
  "map_of kvs k = Some v \<Longrightarrow> v \<noteq> JUndefined \<Longrightarrow> prop_default (JObj kvs) k d = v"
  by (simp add: prop_default_def with_default_def)

lemma with_default_idem: "d \<noteq> JUndefined \<Longrightarrow> with_default (with_default v d) d = with_default v d"
  by (simp add: with_default_def)

lemma api_render_viewport:
  "EvSetViewportInts w h \<in> set (snd (api_render env req_body)) \<Longrightarrow>
     w = parse_int (prop_default req_body ''width'' (JNum 1200)) \<and>
     h = parse_int (prop_default req_body ''height'' (JNum 630))"
  by (auto simp: api_render_def api_render_try_def Let_def
           split: option.splits sum.splits if_splits)

lemma captureHtml_viewport:
  "EvSetViewport w h d \<in> set (snd (captureHtml env html w0 h0 d0)) \<Longrightarrow>
     w = with_default w0 (JNum 1200) \<and> h = with_default h0 (JNum 800) \<and>
     d = with_default d0 (JNum 2)"
  by (auto simp: captureHtml_def captureHtml_try_def Let_def
           split: option.splits sum.splits if_splits)

lemma captureHtml_clip:
  "EvScreenshot c \<in> set (snd (captureHtml env html w0 h0 d0)) \<Longrightarrow>
     c = Some (with_default w0 (JNum 1200), with_default h0 (JNum 800))"
  by (auto simp: captureHtml_def captureHtml_try_def Let_def
           split: option.splits sum.splits if_splits)

lemma render_trace:
  "snd (render env req_body) = [EvRespond 500] \<or> snd (render env req_body) = [EvRespond 400] \<or>
   (\<exists>html n. snd (render env req_body) =
      snd (captureHtml env html (prop_default req_body ''width'' (JNum 1200))
            (prop_default req_body ''height'' (JNum 800))
            (prop_default req_body ''deviceScaleFactor'' (JNum 2))) @ [EvRespond n])"
proof (cases "get_prop req_body ''html''")
  case (Inl e)
  then show ?thesis by (simp add: render_def)
next
  case (Inr html)
  show ?thesis
  proof (cases "\<not> truthy html \<or> typeof html \<noteq> ''string''")
    case True
    with Inr show ?thesis by (auto simp: render_def Let_def)
  next
    case False
    obtain x t where c: "captureHtml env (to_string html)
        (prop_default req_body ''width'' (JNum 1200))
        (prop_default req_body ''height'' (JNum 800))
        (prop_default req_body ''deviceScaleFactor'' (JNum 2)) = (x, t)"
      by (cases "captureHtml env (to_string html)
        (prop_default req_body ''width'' (JNum 1200))
        (prop_default req_body ''height'' (JNum 800))
        (prop_default req_body ''deviceScaleFactor'' (JNum 2))") auto
    have "\<exists>n. snd (render env req_body) = t @ [EvRespond n]"
      using Inr False c by (cases x) (simp_all add: render_def Let_def)
    with c show ?thesis by (metis snd_conv)
  qed
qed

lemma with_default_prop_default:
  "d \<noteq> JUndefined \<Longrightarrow> with_default (prop_default b k d) d = prop_default b k d"
  by (simp add: prop_default_def with_default_def)

lemma render_viewport:
  assumes "EvSetViewport w h d \<in> set (snd (render env req_body))"
  shows "w = prop_default req_body ''width'' (JNum 1200) \<and>
     h = prop_default req_body ''height'' (JNum 800) \<and>
     d = prop_default req_body ''deviceScaleFactor'' (JNum 2)"
  using render_trace [of env req_body] assms
  by (auto dest!: captureHtml_viewport simp: with_default_prop_default)

lemma render_clip:
  assumes "EvScreenshot c \<in> set (snd (render env req_body))"
  shows "c = Some (prop_default req_body ''width'' (JNum 1200),
                   prop_default req_body ''height'' (JNum 800))"
  using render_trace [of env req_body] assms
  by (auto dest!: captureHtml_clip simp: with_default_prop_default)

lemma render_ok_trace:
  "render ok_env hi_request =
     (Some \<lparr>status = 200,
            headers = [(''Content-Type'', ''image/png''),
              (''Cache-Control'', ''no-cache, no-store, must-revalidate''),
              (''Content-Length'', dec (length (png_signature @ [0, 1, 2 :: byte]))),
              (''X-Success'', ''true'')],
            body = BufferBody (png_signature @ [0, 1, 2])\<rparr>,
      [EvLaunch True, EvNewPage, EvSetUserAgent, EvSetBypassCSP,
       EvSetViewport (JNum 1200) (JNum 800) (JNum 2), EvEvaluateOnNewDocument,
       EvSetContent (JStr (inline_loop (fetch_r ok_env) 0
          (links_of (processHtmlForRendering ''<h1>Hi</h1>''))
          (processHtmlForRendering ''<h1>Hi</h1>''))), EvEvaluate,
       EvTimeout 500, EvScreenshot (Some (JNum 1200, JNum 800)), EvPageClose, EvBrowserClose True,
       EvRespond 200])"
  unfolding render_def hi_request_def
  by (simp add: captureHtml_def captureHtml_try_def inlineGoogleFonts_returns prop_default_def
        with_default_def Let_def) (simp add: ok_env_def)

text \<open>
  Claim C6. The viewport that the simple handler sets is \<open>parseInt\<close> of the \<open>width\<close>
  and \<open>height\<close> of the body, with 1200 and 630 for a property that is omitted; the
  viewport and the screenshot clip of the enhanced handler are the \<open>width\<close>, \<open>height\<close>
  and \<open>deviceScaleFactor\<close> of the body, with 1200, 800 and 2 for a property that is
  omitted, and \<open>captureHtml\<close> has the same defaults of its own. A supplied value
  replaces the default (\<open>parseInt\<close> of an integer below \<open>10^21\<close> is that integer).
\<close>

theorem render_default_dimensions:
  "(EvSetViewportInts w h \<in> set (snd (api_render env req_body)) \<longrightarrow>
      w = parse_int (prop_default req_body ''width'' (JNum 1200)) \<and>
      h = parse_int (prop_default req_body ''height'' (JNum 630)))
   \<and> (EvSetViewport w' h' d' \<in> set (snd (render env req_body)) \<longrightarrow>
      w' = prop_default req_body ''width'' (JNum 1200) \<and>
      h' = prop_default req_body ''height'' (JNum 800) \<and>
      d' = prop_default req_body ''deviceScaleFactor'' (JNum 2))
   \<and> (EvScreenshot c \<in> set (snd (render env req_body)) \<longrightarrow>
      c = Some (prop_default req_body ''width'' (JNum 1200),
                prop_default req_body ''height'' (JNum 800)))
   \<and> (EvSetViewport w' h' d' \<in> set (snd (captureHtml env html JUndefined JUndefined JUndefined))
      \<longrightarrow> w' = JNum 1200 \<and> h' = JNum 800 \<and> d' = JNum 2)
   \<and> (map_of kvs k = None \<longrightarrow> prop_default (JObj kvs) k dflt = dflt)
   \<and> (map_of kvs k = Some v \<and> v \<noteq> JUndefined \<longrightarrow> prop_default (JObj kvs) k dflt = v)
   \<and> parse_int (JNum 1200) = Some 1200 \<and> parse_int (JNum 630) = Some 630
   \<and> (\<bar>n\<bar> < 10 ^ 21 \<longrightarrow> parse_int (JNum n) = Some n)"
proof (intro conjI impI)
  show "parse_int (JNum 1200) = Some 1200" "parse_int (JNum 630) = Some 630"
    by (simp_all add: parse_int_num)
next
  assume "EvSetViewport w' h' d' \<in> set (snd (captureHtml env html JUndefined JUndefined JUndefined))"
  from captureHtml_viewport [OF this]
  show "w' = JNum 1200" "h' = JNum 800" "d' = JNum 2" by (simp_all add: with_default_def)
qed (use api_render_viewport render_viewport render_clip prop_default_absent
      prop_default_supplied parse_int_num in blast)+

theorem render_default_dimensions_witness:
  "(\<exists>w h. EvSetViewportInts w h \<in> set (snd (api_render ok_env hi_request)) \<and>
        w = Some 1200 \<and> h = Some 630)
   \<and> (\<exists>w h d. EvSetViewport w h d \<in> set (snd (render ok_env hi_request)) \<and>
        w = JNum 1200 \<and> h = JNum 800 \<and> d = JNum 2)
   \<and> (\<exists>c. EvScreenshot c \<in> set (snd (render ok_env hi_request)) \<and>
        c = Some (JNum 1200, JNum 800))
   \<and> prop_default (JObj [(''html'', JStr ''<h1>Hi</h1>''), (''width'', JNum 640)]) ''width''
        (JNum 1200) = JNum 640
   \<and> parse_int (JNum 640) = Some 640"
proof -
  have a: "EvSetViewportInts (Some 1200) (Some 630) \<in> set (snd (api_render ok_env hi_request))"
    using api_render_ok_trace by (simp add: hi_request_def)
  have b: "EvSetViewport (JNum 1200) (JNum 800) (JNum 2) \<in> set (snd (render ok_env hi_request))"
    "EvScreenshot (Some (JNum 1200, JNum 800)) \<in> set (snd (render ok_env hi_request))"
    by (simp_all add: render_ok_trace)
  have m: "map_of [(''html'', JStr ''<h1>Hi</h1>''), (''width'', JNum 640)] ''width''
             = Some (JNum 640) \<and> JNum 640 \<noteq> JUndefined"
    by simp
  have n: "\<bar>640 :: int\<bar> < 10 ^ 21" by simp
  from render_default_dimensions
    [of "Some 1200" "Some 630" ok_env hi_request "JNum 1200" "JNum 800" "JNum 2"
      "Some (JNum 1200, JNum 800)" "[]"
      "[(''html'', JStr ''<h1>Hi</h1>''), (''width'', JNum 640)]" "''width''" "JNum 1200"
      "JNum 640" 640] a b m n
  show ?thesis by blast
qed

section \<open>The response of a successful enhanced render\<close>

lemma render_success:
  assumes "render env req_body = (Some res, t)" and "status res = 200"
  shows "\<exists>buffer html. res = \<lparr>status = 200,
            headers = [(''Content-Type'', ''image/png''),
              (''Cache-Control'', ''no-cache, no-store, must-revalidate''),
              (''Content-Length'', dec (length buffer)), (''X-Success'', ''true'')],
            body = BufferBody buffer\<rparr>
          \<and> fst (captureHtml env html
               (prop_default req_body ''width'' (JNum 1200))
               (prop_default req_body ''height'' (JNum 800))
               (prop_default req_body ''deviceScaleFactor'' (JNum 2))) = Inr buffer"
proof (cases "get_prop req_body ''html''")
  case (Inl e)
  with assms show ?thesis
    by (auto simp: render_def capture_failed_def json_response_def)
next
  case (Inr html)
  show ?thesis
  proof (cases "\<not> truthy html \<or> typeof html \<noteq> ''string''")
    case True
    with Inr assms show ?thesis by (auto simp: render_def Let_def json_response_def)
  next
    case False
    obtain x t' where c: "captureHtml env (to_string html)
        (prop_default req_body ''width'' (JNum 1200))
        (prop_default req_body ''height'' (JNum 800))
        (prop_default req_body ''deviceScaleFactor'' (JNum 2)) = (x, t')"
      by (meson surj_pair)
    show ?thesis
    proof (cases x)
      case (Inl e)
      with Inr False c assms show ?thesis
        by (auto simp: render_def Let_def capture_failed_def json_response_def)
    next
      case (Inr buffer)
      with \<open>get_prop req_body ''html'' = Inr html\<close> False c assms(1)
      have "res = \<lparr>status = 200,
            headers = [(''Content-Type'', ''image/png''),
              (''Cache-Control'', ''no-cache, no-store, must-revalidate''),
              (''Content-Length'', dec (length buffer)), (''X-Success'', ''true'')],
            body = BufferBody buffer\<rparr>"
        by (auto simp: render_def Let_def)
      moreover from c Inr have "fst (captureHtml env (to_string html)
        (prop_default req_body ''width'' (JNum 1200))
        (prop_default req_body ''height'' (JNum 800))
        (prop_default req_body ''deviceScaleFactor'' (JNum 2))) = Inr buffer" by simp
      ultimately show ?thesis by blast
    qed
  qed
qed

lemma captureHtml_try_success:
  assumes "fst (captureHtml_try env html w h d) = Inr buffer"
  shows "screenshot_r env = Inr buffer"
proof -
  let ?w = "with_default w (JNum 1200)" and ?h = "with_default h (JNum 800)"
    and ?d = "with_default d (JNum 2)"
  let ?clean = "inline_loop (fetch_r env) 0 (links_of (processHtmlForRendering html))
      (processHtmlForRendering html)"
  obtain r1 t1 where c1: "calls [(EvNewPage, newPage_r env),
                          (EvSetUserAgent, setUserAgent_r env),
                          (EvSetBypassCSP, setBypassCSP_r env),
                          (EvSetViewport ?w ?h ?d, setViewport_r env),
                          (EvEvaluateOnNewDocument, evaluateOnNewDocument_r env),
                          (EvSetContent (JStr ?clean), setContent_r env),
                          (EvEvaluate, evaluate_r env),
                          (EvTimeout 500, None)] [EvLaunch True] = (r1, t1)"
    by (meson surj_pair)
  obtain r2 t2 where c2: "calls [(EvPageClose, pageClose_r env),
                                  (EvBrowserClose (browserClose_r env 0 = None),
                                     browserClose_r env 0)]
                             (t1 @ [EvScreenshot (Some (?w, ?h))]) = (r2, t2)"
    by (meson surj_pair)
  from assms show ?thesis
    unfolding captureHtml_try_def Let_def inlineGoogleFonts_returns
    by (cases "launch_r env"; cases r1; cases "screenshot_r env"; cases r2)
       (simp_all add: c1 c2 del: calls.simps)
qed

lemma captureHtml_success:
  assumes "fst (captureHtml env html w h d) = Inr buffer"
  shows "screenshot_r env = Inr buffer"
proof -
  obtain x t b where c: "captureHtml_try env html w h d = (x, t, b)"
    by (meson prod_cases3)
  have "x = Inr buffer"
  proof (cases x)
    case (Inl e)
    with c assms show ?thesis
      by (cases b; cases "browserClose_r env (closes_so_far t)") (simp_all add: captureHtml_def)
  next
    case (Inr y)
    with c assms show ?thesis by (simp add: captureHtml_def)
  qed
  with c have "fst (captureHtml_try env html w h d) = Inr buffer" by simp
  then show ?thesis by (rule captureHtml_try_success)
qed

lemma render_all_ok:
  assumes "calls_succeed env" and "screenshot_r env = Inr buffer"
    and "get_prop req_body ''html'' = Inr (JStr h)" and "h \<noteq> []"
  shows "fst (render env req_body) =
     Some \<lparr>status = 200,
            headers = [(''Content-Type'', ''image/png''),
              (''Cache-Control'', ''no-cache, no-store, must-revalidate''),
              (''Content-Length'', dec (length buffer)), (''X-Success'', ''true'')],
            body = BufferBody buffer\<rparr>"
  using assms
  by (simp add: render_def captureHtml_def captureHtml_try_def inlineGoogleFonts_returns
        calls_succeed_def Let_def)

text \<open>
  Claim C9, as amended. When the enhanced handler answers 200, the body is the buffer
  that \<open>page.screenshot\<close> returned, whatever its length, the \<open>Content-Length\<close> header is
  the decimal text of the byte length of that body (read back as a number, it is that
  length), \<open>X-Success\<close> is \<open>true\<close> and \<open>Content-Type\<close> is \<open>image/png\<close>. The handler
  answers so whenever \<open>html\<close> is a non-empty string and every call succeeds.
\<close>

theorem render_success_response:
  "(render env req_body = (Some res, t) \<and> status res = 200 \<longrightarrow>
      (\<exists>buffer. screenshot_r env = Inr buffer \<and> body res = BufferBody buffer
         \<and> map_of (headers res) ''Content-Length'' = Some (dec (length buffer))
         \<and> digits_value 10 (dec (length buffer)) = length buffer
         \<and> map_of (headers res) ''X-Success'' = Some ''true''
         \<and> map_of (headers res) ''Content-Type'' = Some ''image/png''))
   \<and> (calls_succeed env \<and> screenshot_r env = Inr shot \<and>
        get_prop req_body ''html'' = Inr (JStr h) \<and> h \<noteq> [] \<longrightarrow>
      fst (render env req_body) =
        Some \<lparr>status = 200,
               headers = [(''Content-Type'', ''image/png''),
                 (''Cache-Control'', ''no-cache, no-store, must-revalidate''),
                 (''Content-Length'', dec (length shot)), (''X-Success'', ''true'')],
               body = BufferBody shot\<rparr>)"
proof (intro conjI impI)
  assume a: "render env req_body = (Some res, t) \<and> status res = 200"
  then have r: "render env req_body = (Some res, t)" and st: "status res = 200" by blast+
  from render_success [OF r st] obtain buffer html where
    res: "res = \<lparr>status = 200,
            headers = [(''Content-Type'', ''image/png''),
              (''Cache-Control'', ''no-cache, no-store, must-revalidate''),
              (''Content-Length'', dec (length buffer)), (''X-Success'', ''true'')],
            body = BufferBody buffer\<rparr>"
    and c: "fst (captureHtml env html
               (prop_default req_body ''width'' (JNum 1200))
               (prop_default req_body ''height'' (JNum 800))
               (prop_default req_body ''deviceScaleFactor'' (JNum 2))) = Inr buffer"
    by blast
  from captureHtml_success [OF c] have s: "screenshot_r env = Inr buffer" .
  show "\<exists>buffer. screenshot_r env = Inr buffer \<and> body res = BufferBody buffer
         \<and> map_of (headers res) ''Content-Length'' = Some (dec (length buffer))
         \<and> digits_value 10 (dec (length buffer)) = length buffer
         \<and> map_of (headers res) ''X-Success'' = Some ''true''
         \<and> map_of (headers res) ''Content-Type'' = Some ''image/png''"
    using res s by (intro exI [of _ buffer]) (simp add: digits_value_dec)
next
  assume "calls_succeed env \<and> screenshot_r env = Inr shot \<and>
        get_prop req_body ''html'' = Inr (JStr h) \<and> h \<noteq> []"
  then show "fst (render env req_body) =
        Some \<lparr>status = 200,
               headers = [(''Content-Type'', ''image/png''),
                 (''Cache-Control'', ''no-cache, no-store, must-revalidate''),
                 (''Content-Length'', dec (length shot)), (''X-Success'', ''true'')],
               body = BufferBody shot\<rparr>"
    by (intro render_all_ok) blast+
qed

theorem render_success_response_witness:
  "fst (render ok_env hi_request) =
        Some \<lparr>status = 200,
               headers = [(''Content-Type'', ''image/png''),
                 (''Cache-Control'', ''no-cache, no-store, must-revalidate''),
                 (''Content-Length'', dec (length (png_signature @ [0, 1, 2 :: byte]))),
                 (''X-Success'', ''true'')],
               body = BufferBody (png_signature @ [0, 1, 2])\<rparr>
   \<and> (\<exists>buffer. screenshot_r ok_env = Inr buffer
     \<and> body (the (fst (render ok_env hi_request))) = BufferBody buffer
     \<and> map_of (headers (the (fst (render ok_env hi_request)))) ''Content-Length''
           = Some (dec (length buffer))
     \<and> digits_value 10 (dec (length buffer)) = length buffer
     \<and> map_of (headers (the (fst (render ok_env hi_request)))) ''X-Success'' = Some ''true''
     \<and> map_of (headers (the (fst (render ok_env hi_request)))) ''Content-Type''
           = Some ''image/png'')"
proof -
  have ok: "calls_succeed ok_env \<and> screenshot_r ok_env = Inr (png_signature @ [0, 1, 2]) \<and>
      get_prop hi_request ''html'' = Inr (JStr ''<h1>Hi</h1>'') \<and> ''<h1>Hi</h1>'' \<noteq> []"
    by (simp add: calls_succeed_def ok_env_def hi_request_def)
  have s: "render ok_env hi_request = (Some (the (fst (render ok_env hi_request))),
      snd (render ok_env hi_request)) \<and> status (the (fst (render ok_env hi_request))) = 200"
    by (simp add: render_ok_trace)
  from render_success_response
    [of ok_env hi_request "the (fst (render ok_env hi_request))" "snd (render ok_env hi_request)"
      "png_signature @ [0, 1, 2]" "''<h1>Hi</h1>''"] ok s
  show ?thesis by blast
qed

lemma render_empty_shot:
  "render empty_shot_env hi_request =
     (Some \<lparr>status = 200,
            headers = [(''Content-Type'', ''image/png''),
              (''Cache-Control'', ''no-cache, no-store, must-revalidate''),
              (''Content-Length'', dec 0), (''X-Success'', ''true'')],
            body = BufferBody []\<rparr>,
      snd (render empty_shot_env hi_request))"
proof -
  have ok: "calls_succeed empty_shot_env" "screenshot_r empty_shot_env = Inr []"
      "get_prop hi_request ''html'' = Inr (JStr ''<h1>Hi</h1>'')" "''<h1>Hi</h1>'' \<noteq> []"
    by (simp_all add: calls_succeed_def empty_shot_env_def ok_env_def hi_request_def)
  from render_all_ok [OF ok] show ?thesis by (simp add: prod_eq_iff)
qed

text \<open>
  Claim C9 as stated fails: the handler sends whatever buffer the screenshot call
  returned; when that buffer is empty, the response is still 200, with an empty body
  and \<open>Content-Length\<close> 0.
\<close>

theorem empty_screenshot_counterexample:
  "\<not> (\<forall>env req_body res t.
        render env req_body = (Some res, t) \<and> status res = 200
        \<longrightarrow> (\<exists>buffer. body res = BufferBody buffer \<and> 0 < length buffer))"
proof
  assume "\<forall>env req_body res t.
        render env req_body = (Some res, t) \<and> status res = 200
        \<longrightarrow> (\<exists>buffer. body res = BufferBody buffer \<and> 0 < length buffer)"
  with render_empty_shot
  have "\<exists>buffer. body \<lparr>status = 200,
            headers = [(''Content-Type'', ''image/png''),
              (''Cache-Control'', ''no-cache, no-store, must-revalidate''),
              (''Content-Length'', dec 0), (''X-Success'', ''true'')],
            body = BufferBody []\<rparr> = BufferBody buffer \<and> 0 < length buffer"
    by (metis response.select_convs(1))
  then show False by simp
qed

section \<open>Rejected uploads\<close>

lemma upload_single_accepts:
  "upload_single part = Inr (Some f) \<longleftrightarrow>
     part = Some f \<and> fieldname f = ''image'' \<and> mimetype f \<in> set allowedMimes \<and>
     size f \<le> fileSize_limit"
  by (auto simp: upload_single_def fileFilter_def split: option.splits if_splits)

lemma upload_single_none: "upload_single part = Inr None \<longleftrightarrow> part = None"
  by (auto simp: upload_single_def fileFilter_def split: option.splits if_splits)

lemma upload_single_rejects:
  "part = Some f \<Longrightarrow> mimetype f \<notin> set allowedMimes \<or> size f > fileSize_limit \<Longrightarrow>
     \<exists>e. upload_single part = Inl e \<and> err_status e = None"
  by (auto simp: upload_single_def fileFilter_def split: option.splits if_splits)

lemma handler_no_file:
  "remove_background_handler env None files =
     (json_response 400 [(''error'', JStr ''No image provided'')], [EvRespond 400], files)"
  by (simp add: remove_background_handler_def remove_background_try_def json_response_def)

text \<open>
  Claim C1, as amended. A request without a file gets 400 from the handler. A file
  whose MIME type is not allowed, or that is larger than 10MB, is refused by the upload
  middleware: the handler does not run (no call is made, nothing is removed or stored),
  and the framework's default error handler answers 500, not 400. Only a file of an
  allowed type and of at most 10MB reaches the read and the background removal.
\<close>

theorem upload_rejections:
  "(part = None \<longrightarrow>
      api_remove_background env part files =
        (json_response 400 [(''error'', JStr ''No image provided'')], [EvRespond 400], files))
   \<and> (part = Some f \<and> (mimetype f \<notin> set allowedMimes \<or> size f > fileSize_limit) \<longrightarrow>
      status (fst (api_remove_background env part files)) = 500 \<and>
      snd (api_remove_background env part files) = ([], files))
   \<and> ((EvReadFile p \<in> set (fst (snd (api_remove_background env part files))) \<or>
        EvRemoveBackground \<in> set (fst (snd (api_remove_background env part files)))) \<longrightarrow>
      (\<exists>g. part = Some g \<and> mimetype g \<in> set allowedMimes \<and> size g \<le> fileSize_limit))"
proof (intro conjI impI)
  assume "part = None"
  then show "api_remove_background env part files =
        (json_response 400 [(''error'', JStr ''No image provided'')], [EvRespond 400], files)"
    by (simp add: api_remove_background_def upload_single_def handler_no_file)
next
  assume a: "part = Some f \<and> (mimetype f \<notin> set allowedMimes \<or> size f > fileSize_limit)"
  then obtain e where e: "upload_single part = Inl e" "err_status e = None"
    using upload_single_rejects by blast
  then show "status (fst (api_remove_background env part files)) = 500"
    "snd (api_remove_background env part files) = ([], files)"
    by (simp_all add: api_remove_background_def default_error_response_def)
next
  assume ev: "EvReadFile p \<in> set (fst (snd (api_remove_background env part files))) \<or>
        EvRemoveBackground \<in> set (fst (snd (api_remove_background env part files)))"
  show "\<exists>g. part = Some g \<and> mimetype g \<in> set allowedMimes \<and> size g \<le> fileSize_limit"
  proof (cases "upload_single part")
    case (Inl e)
    with ev show ?thesis by (simp add: api_remove_background_def)
  next
    case (Inr r)
    show ?thesis
    proof (cases r)
      case None
      with Inr ev show ?thesis by (simp add: api_remove_background_def handler_no_file)
    next
      case (Some g)
      with Inr upload_single_accepts [of part g] show ?thesis by blast
    qed
  qed
qed

theorem upload_rejections_witness:
  "api_remove_background ok_removal_env None {} =
        (json_response 400 [(''error'', JStr ''No image provided'')], [EvRespond 400], {})
   \<and> status (fst (api_remove_background ok_removal_env (Some gif_file) {})) = 500
   \<and> snd (api_remove_background ok_removal_env (Some gif_file) {}) = ([], {})
   \<and> status (fst (api_remove_background ok_removal_env (Some big_file) {})) = 500
   \<and> EvRemoveBackground \<in> set (fst (snd (api_remove_background ok_removal_env (Some png_file) {})))
   \<and> (\<exists>g. Some png_file = Some g \<and> mimetype g \<in> set allowedMimes \<and> size g \<le> fileSize_limit)"
proof -
  have g: "Some gif_file = Some gif_file \<and>
      (mimetype gif_file \<notin> set allowedMimes \<or> size gif_file > fileSize_limit)"
    by (simp add: gif_file_def allowedMimes_def)
  have b: "Some big_file = Some big_file \<and>
      (mimetype big_file \<notin> set allowedMimes \<or> size big_file > fileSize_limit)"
    by (simp add: big_file_def fileSize_limit_def)
  have p: "EvRemoveBackground \<in>
      set (fst (snd (api_remove_background ok_removal_env (Some png_file) {})))"
    by (simp add: api_remove_background_def upload_single_def fileFilter_def png_file_def
          allowedMimes_def fileSize_limit_def remove_background_handler_def
          remove_background_try_def ok_removal_env_def unlink_fs_def Let_def)
  from upload_rejections [of None ok_removal_env "{}" gif_file "[]"]
    upload_rejections [of "Some gif_file" ok_removal_env "{}" gif_file "[]"]
    upload_rejections [of "Some big_file" ok_removal_env "{}" big_file "[]"]
    upload_rejections [of "Some png_file" ok_removal_env "{}" png_file "[]"] g b p
  show ?thesis by blast
qed

text \<open>
  Claim C1 as stated fails: a GIF upload is answered with status 500.
\<close>

theorem wrong_mime_status_counterexample:
  "\<not> (\<forall>env part files.
        (part = None \<or> (\<exists>f. part = Some f \<and>
           (mimetype f \<notin> set allowedMimes \<or> size f > fileSize_limit)))
        \<longrightarrow> status (fst (api_remove_background env part files)) = 400)"
proof
  assume "\<forall>env part files.
        (part = None \<or> (\<exists>f. part = Some f \<and>
           (mimetype f \<notin> set allowedMimes \<or> size f > fileSize_limit)))
        \<longrightarrow> status (fst (api_remove_background env part files)) = 400"
  moreover have "mimetype gif_file \<notin> set allowedMimes"
    by (simp add: gif_file_def allowedMimes_def)
  ultimately have "status (fst (api_remove_background ok_removal_env (Some gif_file) {})) = 400"
    by blast
  moreover have "status (fst (api_remove_background ok_removal_env (Some gif_file) {})) = 500"
    by (simp add: api_remove_background_def upload_single_def fileFilter_def gif_file_def
          allowedMimes_def default_error_response_def)
  ultimately show False by simp
qed

section \<open>Cleanup of the stored upload\<close>

lemma try_result_cases:
  assumes "remove_background_try env (Some f) files = (x, t, tp, files')"
  shows "tp = Some (stored_path env) \<and>
    ((\<exists>res. x = Inr res \<and> status res = 200 \<and> unlink_r env 0 = None \<and>
         first_failure env = None \<and>
         t = [EvReadFile (stored_path env), EvRemoveBackground, EvArrayBuffer,
              EvUnlink (stored_path env)] \<and>
         files' = files - {stored_path env})
     \<or> (\<exists>e. x = Inl e \<and> unlink_r env 0 \<noteq> None \<and> first_failure env = Some e \<and>
         t = [EvReadFile (stored_path env), EvRemoveBackground, EvArrayBuffer,
              EvUnlink (stored_path env)] \<and> files' = files)
     \<or> (\<exists>e. x = Inl e \<and> unlinks_so_far t = 0 \<and> files' = files \<and>
         first_failure env = Some e \<and>
         set t \<subseteq> {EvReadFile (stored_path env), EvRemoveBackground, EvArrayBuffer}))"
proof (cases "readFile_r env")
  case (Inl e)
  with assms show ?thesis
    by (auto simp: remove_background_try_def Let_def unlinks_so_far_def first_failure_def)
next
  case r: (Inr buf)
  show ?thesis
  proof (cases "removeBackground_r env buf")
    case (Inl e)
    with r assms show ?thesis
      by (auto simp: remove_background_try_def Let_def unlinks_so_far_def first_failure_def)
  next
    case b: (Inr blob)
    show ?thesis
    proof (cases "arrayBuffer_r env")
      case (Some e)
      with r b assms show ?thesis
        by (auto simp: remove_background_try_def Let_def unlinks_so_far_def first_failure_def)
    next
      case None
      with r b assms show ?thesis
        by (cases "unlink_r env 0")
           (auto simp: remove_background_try_def Let_def unlink_fs_def first_failure_def)
    qed
  qed
qed

lemma accepted_run:
  assumes "fieldname f = ''image''" and "mimetype f \<in> set allowedMimes"
    and "size f \<le> fileSize_limit"
  shows "api_remove_background env (Some f) files =
     remove_background_handler env (Some f) (insert (stored_path env) files)"
  using assms by (simp add: api_remove_background_def upload_single_def fileFilter_def)

lemma unlinks_so_far_four:
  "unlinks_so_far [EvReadFile p, EvRemoveBackground, EvArrayBuffer, EvUnlink q] = 1"
  by (simp add: unlinks_so_far_def)

lemma unlinks_so_far_snoc:
  "unlinks_so_far (t @ [EvUnlink p, EvRespond n]) = Suc (unlinks_so_far t)"
  "unlinks_so_far (t @ [EvRespond n]) = unlinks_so_far t"
  by (simp_all add: unlinks_so_far_def)

lemma removal_failed_shape:
  "status (removal_failed env e) = 500"
  "json_field (removal_failed env e) ''error'' =
     Some (JStr ''Background removal failed. Please try with a different image.'')"
  "json_field (removal_failed env e) ''details'' =
     Some (if removal_node_env env = Some ''development'' then JStr (message e)
           else JUndefined)"
  by (simp_all add: removal_failed_def json_response_def json_field_def)

text \<open>
  Claim C3, as amended. For a request whose upload was stored, the handler calls
  \<open>fs.unlink\<close> on the stored file on every path, as its last call before the response.
  Afterwards the file is gone exactly when one of these calls returned normally: a
  failure of the \<open>unlink\<close> in the \<open>catch\<close> block is logged and ignored, and the file
  then remains. A 200 response is sent only after the file has been removed. Every
  other response is the generic 500 error for the error that the \<open>try\<close> block threw:
  its \<open>details\<close> is the message of that error when \<open>NODE_ENV\<close> is \<open>development\<close> and
  \<open>undefined\<close> otherwise.
\<close>

theorem temp_file_cleanup:
  assumes "fieldname f = ''image''" and "mimetype f \<in> set allowedMimes"
    and "size f \<le> fileSize_limit"
    and "api_remove_background env (Some f) files = (res, t, files')"
  shows "(\<exists>t0 n. t = t0 @ [EvUnlink (stored_path env), EvRespond n])
    \<and> (stored_path env \<notin> files' \<longleftrightarrow> (\<exists>n < unlinks_so_far t. unlink_r env n = None))
    \<and> (status res = 200 \<longrightarrow> stored_path env \<notin> files')
    \<and> (status res \<noteq> 200 \<longrightarrow>
          (\<exists>error. first_failure env = Some error \<and> res = removal_failed env error))
    \<and> (first_failure env = Some error \<longrightarrow>
          status res = 500 \<and>
          json_field res ''error'' =
            Some (JStr ''Background removal failed. Please try with a different image.'') \<and>
          json_field res ''details'' =
            Some (if removal_node_env env = Some ''development'' then JStr (message error)
                  else JUndefined))"
proof -
  let ?p = "stored_path env"
  obtain x t1 tp f1 where tr:
    "remove_background_try env (Some f) (insert ?p files) = (x, t1, tp, f1)"
    by (meson prod_cases4)
  from assms(4) have run:
    "remove_background_handler env (Some f) (insert ?p files) = (res, t, files')"
    by (simp add: accepted_run [OF assms(1-3)])
  from try_result_cases [OF tr] have tp: "tp = Some ?p" by blast
  from try_result_cases [OF tr] consider
    (ok) r where "x = Inr r" "status r = 200" "unlink_r env 0 = None"
      "first_failure env = None"
      "t1 = [EvReadFile ?p, EvRemoveBackground, EvArrayBuffer, EvUnlink ?p]"
      "f1 = insert ?p files - {?p}"
  | (unlink_failed) e' where "x = Inl e'" "unlink_r env 0 \<noteq> None"
      "first_failure env = Some e'"
      "t1 = [EvReadFile ?p, EvRemoveBackground, EvArrayBuffer, EvUnlink ?p]"
      "f1 = insert ?p files"
  | (failed) e' where "x = Inl e'" "unlinks_so_far t1 = 0" "f1 = insert ?p files"
      "first_failure env = Some e'"
    by blast
  then show ?thesis
  proof cases
    case ok
    with run tr have r: "res = r" "t = t1 @ [EvRespond 200]" "files' = f1"
      by (simp_all add: remove_background_handler_def)
    have u: "unlinks_so_far t = 1"
      unfolding r ok by (simp add: unlinks_so_far_def)
    have "t = [EvReadFile ?p, EvRemoveBackground, EvArrayBuffer] @ [EvUnlink ?p, EvRespond 200]"
      unfolding r ok by simp
    then have "\<exists>t0 n. t = t0 @ [EvUnlink ?p, EvRespond n]" by blast
    moreover have "?p \<notin> files'" unfolding r ok by simp
    moreover have "\<exists>n < unlinks_so_far t. unlink_r env n = None"
      unfolding u using ok(3) by auto
    ultimately show ?thesis using r ok(2) ok(4) by simp
  next
    case unlink_failed
    with run tr tp have r: "res = removal_failed env e'"
      "t = t1 @ [EvUnlink ?p, EvRespond 500]"
      "files' = unlink_fs ?p (unlink_r env (unlinks_so_far t1)) f1"
      by (simp_all add: remove_background_handler_def)
    have u1: "unlinks_so_far t1 = 1" unfolding unlink_failed by (rule unlinks_so_far_four)
    have u: "unlinks_so_far t = 2" unfolding r by (simp add: unlinks_so_far_snoc u1)
    have gone: "?p \<notin> files' \<longleftrightarrow> unlink_r env 1 = None"
      unfolding r u1 unlink_failed
      by (cases "unlink_r env 1") (simp_all add: unlink_fs_def unlinks_so_far_four)
    have "(\<exists>n < unlinks_so_far t. unlink_r env n = None) \<longleftrightarrow> unlink_r env 1 = None"
    proof
      assume "\<exists>n < unlinks_so_far t. unlink_r env n = None"
      then obtain n where "n < 2" "unlink_r env n = None" unfolding u by blast
      with unlink_failed(2) show "unlink_r env 1 = None"
        by (cases "n = 0") (auto simp: less_2_cases_iff)
    next
      assume "unlink_r env 1 = None"
      then have "(1::nat) < 2 \<and> unlink_r env 1 = None" by simp
      then show "\<exists>n < unlinks_so_far t. unlink_r env n = None" unfolding u by blast
    qed
    with gone have "?p \<notin> files' \<longleftrightarrow> (\<exists>n < unlinks_so_far t. unlink_r env n = None)"
      by simp
    moreover have "\<exists>t0 n. t = t0 @ [EvUnlink ?p, EvRespond n]" using r(2) by blast
    moreover have "status res = 500" by (simp add: r(1) removal_failed_shape)
    moreover have "\<exists>error. first_failure env = Some error \<and> res = removal_failed env error"
      using r(1) unlink_failed(3) by blast
    moreover have "first_failure env = Some error \<longrightarrow> res = removal_failed env error"
      using r(1) unlink_failed(3) by simp
    ultimately show ?thesis using removal_failed_shape [of env error] by auto
  next
    case failed
    with run tr tp have r: "res = removal_failed env e'"
      "t = t1 @ [EvUnlink ?p, EvRespond 500]"
      "files' = unlink_fs ?p (unlink_r env 0) f1"
      by (simp_all add: remove_background_handler_def)
    have u: "unlinks_so_far t = 1" unfolding r by (simp add: unlinks_so_far_snoc failed)
    have gone: "?p \<notin> files' \<longleftrightarrow> unlink_r env 0 = None"
      unfolding r failed by (cases "unlink_r env 0") (simp_all add: unlink_fs_def)
    have "(\<exists>n < unlinks_so_far t. unlink_r env n = None) \<longleftrightarrow> unlink_r env 0 = None"
      unfolding u by auto
    with gone have "?p \<notin> files' \<longleftrightarrow> (\<exists>n < unlinks_so_far t. unlink_r env n = None)"
      by simp
    moreover have "\<exists>t0 n. t = t0 @ [EvUnlink ?p, EvRespond n]" using r(2) by blast
    moreover have "status res = 500" by (simp add: r(1) removal_failed_shape)
    moreover have "\<exists>error. first_failure env = Some error \<and> res = removal_failed env error"
      using r(1) failed(4) by blast
    moreover have "first_failure env = Some error \<longrightarrow> res = removal_failed env error"
      using r(1) failed(4) by simp
    ultimately show ?thesis using removal_failed_shape [of env error] by auto
  qed
qed

lemma png_file_accepted:
  "fieldname png_file = ''image''" "mimetype png_file \<in> set allowedMimes"
  "size png_file \<le> fileSize_limit"
  by (simp_all add: png_file_def allowedMimes_def fileSize_limit_def)

lemma read_fails_run:
  "api_remove_background read_fails_env (Some png_file) {} =
     (removal_failed read_fails_env boom,
      [EvReadFile ''uploads/image-1-2.png'', EvUnlink ''uploads/image-1-2.png'', EvRespond 500],
      {})"
  by (simp add: accepted_run [OF png_file_accepted] remove_background_handler_def
        remove_background_try_def Let_def unlinks_so_far_def unlink_fs_def)
     (simp add: read_fails_env_def ok_removal_env_def unlink_fs_def)

lemma read_unlink_fail_run:
  "api_remove_background read_unlink_fail_env (Some png_file) {} =
     (removal_failed read_unlink_fail_env boom,
      [EvReadFile ''uploads/image-1-2.png'', EvUnlink ''uploads/image-1-2.png'', EvRespond 500],
      {''uploads/image-1-2.png''})"
  by (simp add: accepted_run [OF png_file_accepted] remove_background_handler_def
        remove_background_try_def Let_def unlinks_so_far_def unlink_fs_def)
     (simp add: read_unlink_fail_env_def ok_removal_env_def unlink_fs_def boom_def)

theorem temp_file_cleanup_witness:
  "api_remove_background read_fails_env (Some png_file) {} =
     (removal_failed read_fails_env boom,
      [EvReadFile ''uploads/image-1-2.png'', EvUnlink ''uploads/image-1-2.png'', EvRespond 500],
      {})
   \<and> (\<exists>t0 n. fst (snd (api_remove_background read_fails_env (Some png_file) {})) =
          t0 @ [EvUnlink (stored_path read_fails_env), EvRespond n])
   \<and> stored_path read_fails_env \<notin> snd (snd (api_remove_background read_fails_env (Some png_file) {}))
   \<and> status (fst (api_remove_background read_fails_env (Some png_file) {})) = 500
   \<and> json_field (fst (api_remove_background read_fails_env (Some png_file) {})) ''details''
        = Some JUndefined"
proof -
  have ff: "first_failure read_fails_env = Some boom"
    by (simp add: first_failure_def read_fails_env_def ok_removal_env_def)
  have d: "removal_node_env read_fails_env \<noteq> Some ''development''"
    by (simp add: read_fails_env_def ok_removal_env_def)
  have u: "unlinks_so_far [EvReadFile ''uploads/image-1-2.png'',
      EvUnlink ''uploads/image-1-2.png'', EvRespond 500] = 1"
    by (simp add: unlinks_so_far_def)
  have u0: "(0::nat) < 1 \<and> unlink_r read_fails_env 0 = None"
    by (simp add: read_fails_env_def ok_removal_env_def)
  note inst = temp_file_cleanup [OF png_file_accepted read_fails_run, of boom]
  from inst have a: "\<exists>t0 n. [EvReadFile ''uploads/image-1-2.png'',
      EvUnlink ''uploads/image-1-2.png'', EvRespond 500] =
        t0 @ [EvUnlink (stored_path read_fails_env), EvRespond n]" by blast
  from inst ff d have b: "status (removal_failed read_fails_env boom) = 500"
    "json_field (removal_failed read_fails_env boom) ''details'' = Some JUndefined"
    by simp_all
  from inst u u0 have c: "stored_path read_fails_env \<notin> ({} :: string set)" by simp
  from a b c show ?thesis unfolding read_fails_run by simp
qed

text \<open>
  Claim C3 as stated fails: when reading the file fails and the \<open>unlink\<close> in the
  \<open>catch\<close> block fails too, the request ends with the stored file still on disk.
\<close>

theorem temp_file_remains_counterexample:
  "\<not> (\<forall>env f files.
        fieldname f = ''image'' \<and> mimetype f \<in> set allowedMimes \<and> size f \<le> fileSize_limit
        \<longrightarrow> stored_path env \<notin> snd (snd (api_remove_background env (Some f) files)))"
proof
  assume "\<forall>env f files.
        fieldname f = ''image'' \<and> mimetype f \<in> set allowedMimes \<and> size f \<le> fileSize_limit
        \<longrightarrow> stored_path env \<notin> snd (snd (api_remove_background env (Some f) files))"
  with png_file_accepted have "stored_path read_unlink_fail_env \<notin>
      snd (snd (api_remove_background read_unlink_fail_env (Some png_file) {}))"
    by blast
  then show False
    unfolding read_unlink_fail_run
    by (simp add: read_unlink_fail_env_def ok_removal_env_def)
qed

section \<open>The response of a successful background removal\<close>

lemma removal_ok_run:
  assumes "fieldname f = ''image''" and "mimetype f \<in> set allowedMimes"
    and "size f \<le> fileSize_limit"
    and "readFile_r env = Inr buf" and "removeBackground_r env buf = Inr blob"
    and "arrayBuffer_r env = None" and "unlink_r env 0 = None"
  shows "api_remove_background env (Some f) files =
     (\<lparr>status = 200,
       headers = [(''Content-Type'', ''image/png''),
         (''X-Processing-Time'', removal_fmt_secs env (removal_elapsed_ms env))],
       body = BufferBody blob\<rparr>,
      [EvReadFile (stored_path env), EvRemoveBackground, EvArrayBuffer,
       EvUnlink (stored_path env), EvRespond 200],
      files - {stored_path env})"
  using assms(4-7)
  by (simp add: accepted_run [OF assms(1-3)] remove_background_handler_def
        remove_background_try_def Let_def unlink_fs_def)

lemma removal_status_200:
  assumes "fieldname f = ''image''" and "mimetype f \<in> set allowedMimes"
    and "size f \<le> fileSize_limit"
    and "status (fst (api_remove_background env (Some f) files)) = 200"
  shows "\<exists>buf blob. readFile_r env = Inr buf \<and> removeBackground_r env buf = Inr blob \<and>
            arrayBuffer_r env = None \<and> unlink_r env 0 = None"
proof -
  let ?p = "stored_path env"
  obtain x t1 tp f1 where tr:
    "remove_background_try env (Some f) (insert ?p files) = (x, t1, tp, f1)"
    by (meson prod_cases4)
  have tp: "tp = Some ?p" using try_result_cases [OF tr] by blast
  have "\<exists>r. x = Inr r"
  proof (cases x)
    case (Inl e)
    with tr tp assms(4) show ?thesis
      by (simp add: accepted_run [OF assms(1-3)] remove_background_handler_def
            removal_failed_def json_response_def)
  next
    case (Inr r)
    then show ?thesis by blast
  qed
  then obtain r where r: "x = Inr r" by blast
  show ?thesis
  proof (cases "readFile_r env")
    case (Inl e)
    with tr r show ?thesis by (simp add: remove_background_try_def Let_def)
  next
    case rf: (Inr buf)
    show ?thesis
    proof (cases "removeBackground_r env buf")
      case (Inl e)
      with tr r rf show ?thesis by (simp add: remove_background_try_def Let_def)
    next
      case rb: (Inr blob)
      show ?thesis
      proof (cases "arrayBuffer_r env")
        case (Some e)
        with tr r rf rb show ?thesis by (simp add: remove_background_try_def Let_def)
      next
        case None
        with tr r rf rb show ?thesis
          by (cases "unlink_r env 0") (simp_all add: remove_background_try_def Let_def)
      qed
    qed
  qed
qed

text \<open>
  Claim C8, as amended. For an upload that the middleware accepted: when the read of the
  file, the background removal, the conversion of its result and the removal of the
  temp file succeed, the response is 200 with \<open>Content-Type\<close> \<open>image/png\<close>, an
  \<open>X-Processing-Time\<close> header and, as its body, the buffer that the background removal
  produced, whatever its length; and every 200 response of the route has this form.
\<close>

theorem removal_success_response:
  assumes "fieldname f = ''image''" and "mimetype f \<in> set allowedMimes"
    and "size f \<le> fileSize_limit"
  shows "(readFile_r env = Inr buf \<and> removeBackground_r env buf = Inr blob \<and>
        arrayBuffer_r env = None \<and> unlink_r env 0 = None \<longrightarrow>
          fst (api_remove_background env (Some f) files) =
            \<lparr>status = 200,
             headers = [(''Content-Type'', ''image/png''),
               (''X-Processing-Time'', removal_fmt_secs env (removal_elapsed_ms env))],
             body = BufferBody blob\<rparr>)
    \<and> (status (fst (api_remove_background env (Some f) files)) = 200 \<longrightarrow>
          (\<exists>buf' blob'. readFile_r env = Inr buf' \<and> removeBackground_r env buf' = Inr blob' \<and>
             fst (api_remove_background env (Some f) files) =
               \<lparr>status = 200,
                headers = [(''Content-Type'', ''image/png''),
                  (''X-Processing-Time'', removal_fmt_secs env (removal_elapsed_ms env))],
                body = BufferBody blob'\<rparr>))"
proof (intro conjI impI)
  assume "readFile_r env = Inr buf \<and> removeBackground_r env buf = Inr blob \<and>
        arrayBuffer_r env = None \<and> unlink_r env 0 = None"
  then have "readFile_r env = Inr buf" "removeBackground_r env buf = Inr blob"
    "arrayBuffer_r env = None" "unlink_r env 0 = None" by blast+
  from removal_ok_run [OF assms this]
  show "fst (api_remove_background env (Some f) files) =
            \<lparr>status = 200,
             headers = [(''Content-Type'', ''image/png''),
               (''X-Processing-Time'', removal_fmt_secs env (removal_elapsed_ms env))],
             body = BufferBody blob\<rparr>" by simp
next
  assume "status (fst (api_remove_background env (Some f) files)) = 200"
  from removal_status_200 [OF assms this] obtain b c where
    ok: "readFile_r env = Inr b" "removeBackground_r env b = Inr c"
    "arrayBuffer_r env = None" "unlink_r env 0 = None" by blast
  from removal_ok_run [OF assms ok]
  have "fst (api_remove_background env (Some f) files) =
            \<lparr>status = 200,
             headers = [(''Content-Type'', ''image/png''),
               (''X-Processing-Time'', removal_fmt_secs env (removal_elapsed_ms env))],
             body = BufferBody c\<rparr>" by simp
  with ok(1,2)
  show "\<exists>buf' blob'. readFile_r env = Inr buf' \<and> removeBackground_r env buf' = Inr blob' \<and>
             fst (api_remove_background env (Some f) files) =
               \<lparr>status = 200,
                headers = [(''Content-Type'', ''image/png''),
                  (''X-Processing-Time'', removal_fmt_secs env (removal_elapsed_ms env))],
                body = BufferBody blob'\<rparr>" by blast
qed

theorem removal_success_response_witness:
  "status (fst (api_remove_background ok_removal_env (Some png_file) {})) = 200
   \<and> fst (api_remove_background ok_removal_env (Some png_file) {}) =
        \<lparr>status = 200,
         headers = [(''Content-Type'', ''image/png''), (''X-Processing-Time'', ''2.00'')],
         body = BufferBody (png_signature @ [9])\<rparr>"
proof -
  have e: "readFile_r ok_removal_env = Inr [1, 2, 3] \<and>
      removeBackground_r ok_removal_env [1, 2, 3] = Inr (png_signature @ [9]) \<and>
      arrayBuffer_r ok_removal_env = None \<and> unlink_r ok_removal_env 0 = None"
    by (simp add: ok_removal_env_def)
  have f: "removal_fmt_secs ok_removal_env (removal_elapsed_ms ok_removal_env) = ''2.00''"
    by (simp add: ok_removal_env_def)
  from removal_success_response [OF png_file_accepted, of ok_removal_env "[1, 2, 3]"
      "png_signature @ [9]" "{}"] e
  have "fst (api_remove_background ok_removal_env (Some png_file) {}) =
        \<lparr>status = 200,
         headers = [(''Content-Type'', ''image/png''),
           (''X-Processing-Time'',
              removal_fmt_secs ok_removal_env (removal_elapsed_ms ok_removal_env))],
         body = BufferBody (png_signature @ [9])\<rparr>"
    by blast
  then show ?thesis unfolding f by simp
qed

lemma unlink_fails_run:
  "api_remove_background unlink_fails_env (Some png_file) {} =
     (removal_failed unlink_fails_env boom,
      [EvReadFile ''uploads/image-1-2.png'', EvRemoveBackground, EvArrayBuffer,
       EvUnlink ''uploads/image-1-2.png'', EvUnlink ''uploads/image-1-2.png'', EvRespond 500],
      {''uploads/image-1-2.png''})"
  by (simp add: accepted_run [OF png_file_accepted] remove_background_handler_def
        remove_background_try_def Let_def unlinks_so_far_def unlink_fs_def)
     (simp add: unlink_fails_env_def ok_removal_env_def unlink_fs_def boom_def)

lemma empty_blob_run:
  "fst (api_remove_background empty_blob_env (Some png_file) {}) =
     \<lparr>status = 200,
      headers = [(''Content-Type'', ''image/png''), (''X-Processing-Time'', ''2.00'')],
      body = BufferBody []\<rparr>"
proof -
  have e: "readFile_r empty_blob_env = Inr [1, 2, 3]"
      "removeBackground_r empty_blob_env [1, 2, 3] = Inr []"
      "arrayBuffer_r empty_blob_env = None" "unlink_r empty_blob_env 0 = None"
    by (simp_all add: empty_blob_env_def ok_removal_env_def)
  from removal_ok_run [OF png_file_accepted e, of "{}"]
  show ?thesis by (simp add: empty_blob_env_def ok_removal_env_def)
qed

text \<open>
  Claim C8 as stated fails. The handler sends whatever buffer the background removal
  produced: when that buffer is empty, the response is 200 with an empty body. And
  when the background removal succeeds and the removal of the temp file throws, the
  response is the 500 error.
\<close>

theorem removal_response_counterexample:
  "\<not> (\<forall>env f files buf blob.
        fieldname f = ''image'' \<and> mimetype f \<in> set allowedMimes \<and> size f \<le> fileSize_limit \<and>
        readFile_r env = Inr buf \<and> removeBackground_r env buf = Inr blob \<and>
        arrayBuffer_r env = None \<and> unlink_r env 0 = None
        \<longrightarrow> (\<exists>b. body (fst (api_remove_background env (Some f) files)) = BufferBody b \<and>
                 0 < length b))
   \<and> \<not> (\<forall>env f files buf blob.
        fieldname f = ''image'' \<and> mimetype f \<in> set allowedMimes \<and> size f \<le> fileSize_limit \<and>
        readFile_r env = Inr buf \<and> removeBackground_r env buf = Inr blob \<and>
        arrayBuffer_r env = None
        \<longrightarrow> map_of (headers (fst (api_remove_background env (Some f) files))) ''Content-Type''
              = Some ''image/png'')"
proof (intro conjI notI)
  assume a: "\<forall>env f files buf blob.
        fieldname f = ''image'' \<and> mimetype f \<in> set allowedMimes \<and> size f \<le> fileSize_limit \<and>
        readFile_r env = Inr buf \<and> removeBackground_r env buf = Inr blob \<and>
        arrayBuffer_r env = None \<and> unlink_r env 0 = None
        \<longrightarrow> (\<exists>b. body (fst (api_remove_background env (Some f) files)) = BufferBody b \<and>
                 0 < length b)"
  have e: "readFile_r empty_blob_env = Inr [1, 2, 3] \<and>
      removeBackground_r empty_blob_env [1, 2, 3] = Inr [] \<and>
      arrayBuffer_r empty_blob_env = None \<and> unlink_r empty_blob_env 0 = None"
    by (simp add: empty_blob_env_def ok_removal_env_def)
  from a png_file_accepted e
  have "\<exists>b. body (fst (api_remove_background empty_blob_env (Some png_file) {})) = BufferBody b
      \<and> 0 < length b"
    by blast
  then show False unfolding empty_blob_run by simp
next
  assume a: "\<forall>env f files buf blob.
        fieldname f = ''image'' \<and> mimetype f \<in> set allowedMimes \<and> size f \<le> fileSize_limit \<and>
        readFile_r env = Inr buf \<and> removeBackground_r env buf = Inr blob \<and>
        arrayBuffer_r env = None
        \<longrightarrow> map_of (headers (fst (api_remove_background env (Some f) files))) ''Content-Type''
              = Some ''image/png''"
  have e: "readFile_r unlink_fails_env = Inr [1, 2, 3] \<and>
      removeBackground_r unlink_fails_env [1, 2, 3] = Inr (png_signature @ [9]) \<and>
      arrayBuffer_r unlink_fails_env = None"
    by (simp add: unlink_fails_env_def ok_removal_env_def)
  from a png_file_accepted e
  have "map_of (headers (fst (api_remove_background unlink_fails_env (Some png_file) {})))
      ''Content-Type'' = Some ''image/png''"
    by blast
  then show False
    unfolding unlink_fails_run by (simp add: removal_failed_def json_response_def)
qed

section \<open>Font inlining at a failed link\<close>

lemma inline_step_failed:
  assumes "first_match href_rx linkTag = Some href" and "fetch_failed (fetch i href)"
  shows "inline_step fetch i linkTag inlined = inlined"
  using assms
  by (auto simp: inline_step_def inline_try_def fetch_failed_def
           split: fetch_result.splits text_result.splits)

lemma tagF_href: "first_match href_rx tagF = Some ''f''"
  by code_simp

lemma tagS_href: "first_match href_rx tagS = Some ''https://fonts.googleapis.com/s''"
  by code_simp

lemma links_of_FS: "links_of (tagF @ tagS) = [tagF, tagS]"
  by code_simp

lemma step_S: "inline_step fetch_only_s (Suc 0) tagS (tagF @ tagS) =
    ''<link href='' @ dq @ ''f'' @ dq @ '' '' @ styleTag ''p{}'' @ tagS"
  by code_simp

lemma inline_FS:
  "inlineGoogleFonts fetch_only_s (tagF @ tagS) =
     Inr (''<link href='' @ dq @ ''f'' @ dq @ '' '' @ styleTag ''p{}'' @ tagS)"
proof -
  have f: "fetch_failed (fetch_only_s 0 ''f'')"
    by (simp add: fetch_only_s_def fetch_failed_def)
  have "inline_step fetch_only_s 0 tagF (tagF @ tagS) = tagF @ tagS"
    using tagF_href f by (rule inline_step_failed)
  then show ?thesis
    by (simp add: inlineGoogleFonts_returns links_of_FS step_S)
qed

lemma tagF_gone:
  "\<not> includes_str (''<link href='' @ dq @ ''f'' @ dq @ '' '' @ styleTag ''p{}'' @ tagS) tagF"
  by code_simp

text \<open>
  Claim C4 at the page \<open>tagF @ tagS\<close>. The loop finds the two link tags. The fetch for
  the first one throws, so by the claim that tag stays as it is; the fetch for the
  second one succeeds. But \<open>inlined.replace(linkTag, styleTag)\<close> replaces the first
  occurrence of the text of the second tag, which lies inside the first tag: the
  returned HTML no longer contains the first tag, whose fetch failed, and still ends
  with the second tag, whose fetch succeeded.
\<close>

theorem inline_replaces_inside_failed_tag:
  "links_of (tagF @ tagS) = [tagF, tagS]
   \<and> first_match href_rx tagF = Some ''f''
   \<and> fetch_only_s 0 ''f'' = FetchThrows boom
   \<and> first_match href_rx tagS = Some ''https://fonts.googleapis.com/s''
   \<and> fetch_only_s 1 ''https://fonts.googleapis.com/s'' = Response True (Text ''p{}'')
   \<and> inlineGoogleFonts fetch_only_s (tagF @ tagS) =
        Inr (''<link href='' @ dq @ ''f'' @ dq @ '' '' @ styleTag ''p{}'' @ tagS)
   \<and> includes_str (tagF @ tagS) tagF
   \<and> includes_str (''<link href='' @ dq @ ''f'' @ dq @ '' '' @ styleTag ''p{}'' @ tagS) tagF
        = False"
proof -
  have "includes_str (tagF @ tagS) tagF" by code_simp
  then show ?thesis
    using links_of_FS tagF_href tagS_href inline_FS tagF_gone
    by (simp add: fetch_only_s_def)
qed

section \<open>Preprocessing at pages with scripts and iframes\<close>

lemma process_multiline_iframe:
  "processHtmlForRendering multiline_iframe = googleapis_link @ gstatic_link @ multiline_iframe"
  by code_simp

lemma process_nested_script:
  "processHtmlForRendering nested_script =
     googleapis_link @ gstatic_link @ ''<script>alert(1)</script>''"
  by code_simp

lemma process_head_in_script: "processHtmlForRendering head_in_script = []"
  by code_simp

lemma process_empty: "processHtmlForRendering [] = googleapis_link @ gstatic_link"
  by code_simp

lemma no_hints_in_empty: "\<not> hasPreconnectGoogapis [] \<and> \<not> hasPreconnectGstatic []"
  by code_simp

text \<open>
  Claim C7 at the three pages. The \<open>iframe\<close> with a line break in its content is not
  removed, since \<open>.\<close> of the expression for \<open>iframe\<close> does not match a line break.
  Removing the inner \<open>script\<close> tag of the second page joins the text around it into a
  \<open>script\<close> tag, which stays in the output. On the third page the preconnect links are
  inserted before the \<open></head>\<close> inside the script and are removed with it: the output
  is empty and has neither link.
\<close>

theorem strip_misses_constructs:
  "processHtmlForRendering multiline_iframe = googleapis_link @ gstatic_link @ multiline_iframe
   \<and> processHtmlForRendering nested_script =
       googleapis_link @ gstatic_link @ ''<script>alert(1)</script>''
   \<and> processHtmlForRendering head_in_script = []
   \<and> hasPreconnectGoogapis (processHtmlForRendering head_in_script) = False
   \<and> hasPreconnectGstatic (processHtmlForRendering head_in_script) = False"
  using process_multiline_iframe process_nested_script process_head_in_script no_hints_in_empty
  by simp

section \<open>A second pass of the preprocessing\<close>

text \<open>
  Claim C10 at the page whose script contains \<open></head>\<close>. The first pass inserts the
  preconnect links inside the script and removes them with it, so its output is empty;
  the second pass finds no link in that output and puts both in front: the two passes
  differ.
\<close>

theorem second_pass_differs:
  "processHtmlForRendering head_in_script = []
   \<and> processHtmlForRendering (processHtmlForRendering head_in_script) =
       googleapis_link @ gstatic_link
   \<and> processHtmlForRendering (processHtmlForRendering head_in_script) \<noteq>
       processHtmlForRendering head_in_script"
  by (simp add: process_head_in_script process_empty googleapis_link_def)

end
